theory Spec2Isabelle
  imports Complex_Main "HOL-Library.Char_ord" "HOL-Library.List_Lexorder"
begin

section \<open>JavaScript values\<close>

text \<open>
  A JavaScript number is modelled by the rational it denotes (finite values only: no NaN,
  no infinities), so comparisons are exact. What the platform computes on numbers and
  strings beyond that (the rounding addition of doubles, \<^verbatim>\<open>Intl.NumberFormat\<close>, the
  Unicode case mappings) is not part of the repository: the functions that use it take it
  as a parameter, the record \<open>platform\<close> below. Strings are character lists and are
  compared lexicographically by character code, as JavaScript compares them.
\<close>

type_synonym number = rat

datatype jsval =
    JStr string
  | JNum number
  | JArr "jsval list"
  | JObj "(string \<times> jsval) list"

text \<open>Object literals: a later key replaces the value of an earlier equal key in place.\<close>

fun obj_set :: "string \<Rightarrow> 'a \<Rightarrow> (string \<times> 'a) list \<Rightarrow> (string \<times> 'a) list" where
  "obj_set k v [] = [(k, v)]"
| "obj_set k v ((k', v') # kvs) =
     (if k = k' then (k, v) # kvs else (k', v') # obj_set k v kvs)"

definition obj_literal :: "(string \<times> 'a) list \<Rightarrow> (string \<times> 'a) list" where
  "obj_literal entries = foldl (\<lambda>obj (k, v). obj_set k v obj) [] entries"

definition obj_keys :: "jsval \<Rightarrow> string list" where
  "obj_keys v = (case v of JObj kvs \<Rightarrow> map fst kvs | _ \<Rightarrow> [])"

definition obj_get :: "jsval \<Rightarrow> string \<Rightarrow> jsval option" where
  "obj_get v k = (case v of JObj kvs \<Rightarrow> map_of kvs k | _ \<Rightarrow> None)"

definition has_fields :: "string list \<Rightarrow> jsval \<Rightarrow> bool" where
  "has_fields ks v = list_all (\<lambda>k. k \<in> set (obj_keys v)) ks"

subsection \<open>String primitives\<close>

text \<open>\<^verbatim>\<open>s.slice(0, n)\<close>\<close>

definition slice0 :: "nat \<Rightarrow> string \<Rightarrow> string" where
  "slice0 n s = take n s"

text \<open>\<^verbatim>\<open>s.includes(sub)\<close>\<close>

fun str_includes :: "string \<Rightarrow> string \<Rightarrow> bool" where
  "str_includes [] sub = (sub = [])"
| "str_includes (c # cs) sub = (take (length sub) (c # cs) = sub \<or> str_includes cs sub)"

subsection \<open>The platform\<close>

text \<open>
  \<open>num_add\<close> is \<^verbatim>\<open>+\<close> on numbers (the sum rounded to a double), \<open>toUpperCase\<close> and
  \<open>toLowerCase\<close> are the string methods, and \<open>numberFormat decimals\<close> is
  \<^verbatim>\<open>new Intl.NumberFormat("en-US", {minimumFractionDigits: 0, maximumFractionDigits:
  decimals, useGrouping: false}).format\<close>.
\<close>

record platform =
  num_add :: "number \<Rightarrow> number \<Rightarrow> number"
  toUpperCase :: "string \<Rightarrow> string"
  toLowerCase :: "string \<Rightarrow> string"
  numberFormat :: "nat \<Rightarrow> number \<Rightarrow> string"

subsection \<open>An instance of the platform for the examples\<close>

text \<open>
  The examples are evaluated on ASCII strings, on sums that are exact and on numbers with
  a short exact decimal expansion. There the platform agrees with the functions below:
  the case mappings of the letters a to z, the exact sum, and the decimal expansion
  rounded to \<open>decimals\<close> fraction digits (ties away from zero, trailing fraction zeros
  dropped).
\<close>

definition upper_table :: "(char \<times> char) list" where
  "upper_table = zip ''abcdefghijklmnopqrstuvwxyz'' ''ABCDEFGHIJKLMNOPQRSTUVWXYZ''"

definition ascii_toUpperCase :: "string \<Rightarrow> string" where
  "ascii_toUpperCase s = map (\<lambda>c. case map_of upper_table c of Some u \<Rightarrow> u | None \<Rightarrow> c) s"

definition ascii_toLowerCase :: "string \<Rightarrow> string" where
  "ascii_toLowerCase s =
     map (\<lambda>c. case map_of (map (\<lambda>(l, u). (u, l)) upper_table) c of Some l \<Rightarrow> l | None \<Rightarrow> c) s"

definition digit_char :: "nat \<Rightarrow> char" where
  "digit_char d = ''0123456789'' ! d"

function show_nat :: "nat \<Rightarrow> string" where
  "show_nat n = (if n < 10 then [digit_char n] else show_nat (n div 10) @ [digit_char (n mod 10)])"
  by pat_completeness auto
termination
  by (relation "measure id") auto

declare show_nat.simps [simp del]

text \<open>The fraction digits of \<open>m < 10 ^ d\<close>, padded to \<open>d\<close> places.\<close>

fun frac_digits :: "nat \<Rightarrow> nat \<Rightarrow> string" where
  "frac_digits 0 m = []"
| "frac_digits (Suc d) m = frac_digits d (m div 10) @ [digit_char (m mod 10)]"

fun strip_zeros :: "string \<Rightarrow> string" where
  "strip_zeros [] = []"
| "strip_zeros (c # cs) =
     (let r = strip_zeros cs in if r = [] \<and> c = CHR ''0'' then [] else c # r)"

definition decimal_format :: "nat \<Rightarrow> number \<Rightarrow> string" where
  "decimal_format decimals x =
     (let scaled = nat \<lfloor>\<bar>x\<bar> * 10 ^ decimals + 1 / 2\<rfloor>;
          ip = show_nat (scaled div 10 ^ decimals);
          fp = strip_zeros (frac_digits decimals (scaled mod 10 ^ decimals))
      in (if x < 0 then ''-'' else '''') @ ip @ (if fp = [] then [] else ''.'' @ fp))"

definition ascii_platform :: platform where
  "ascii_platform =
     \<lparr>num_add = (+), toUpperCase = ascii_toUpperCase, toLowerCase = ascii_toLowerCase,
      numberFormat = decimal_format\<rparr>"

section \<open>types/strategy.ts\<close>

datatype strategy_type = PromptBasedStrategy | GridStrategy

datatype strategy_status = Running | Stopped

datatype trading_mode = Live | Virtual


fun trading_mode_literal :: "trading_mode \<Rightarrow> string" where
  "trading_mode_literal Live = ''live''"
| "trading_mode_literal Virtual = ''virtual''"

record Strategy =
  strategy_id :: string
  strategy_name :: string
  strategy_type :: strategy_type
  status :: strategy_status
  trading_mode :: trading_mode
  unrealized_pnl :: number
  unrealized_pnl_pct :: number
  created_at :: string
  exchange_id :: string
  model_id :: string

datatype action_kind = open_long | open_short | close_long | close_short

fun action_literal :: "action_kind \<Rightarrow> string" where
  "action_literal open_long = ''open_long''"
| "action_literal open_short = ''open_short''"
| "action_literal close_long = ''close_long''"
| "action_literal close_short = ''close_short''"

datatype trade_side = BUY | SELL


record StrategyAction =
  instruction_id :: string
  symbol :: string
  action :: action_kind
  action_display :: string
  side :: trade_side
  quantity :: number
  leverage :: number
  entry_price :: number
  exit_price :: "number option"
  entry_at :: string
  exit_at :: "string option"
  fee_cost :: number
  realized_pnl :: number
  realized_pnl_pct :: number
  rationale :: string
  holding_time_ms :: number

record PortfolioSummary =
  cash :: number
  total_value :: number
  total_pnl :: number

record ExchangeAsset =
  coin_id :: number
  coin_name :: string
  available :: number
  frozen :: number
  equity :: number
  asset_unrealized_pnl :: number

record StrategyAssets =
  assets_strategy_id :: string
  assets_exchange_id :: string
  assets :: "ExchangeAsset list"

record AccountInfo =
  account_strategy_id :: string
  account_exchange_id :: string
  total_equity :: number
  total_available :: number
  total_frozen :: number
  account :: "jsval option"
  collateral :: "jsval list option"
  position :: "jsval list option"

section \<open>lib/utils.ts, constants/stock.ts, store/settings-store.ts\<close>

text \<open>An optional argument is an \<open>option\<close>: \<open>None\<close> is \<^verbatim>\<open>undefined\<close> (or \<^verbatim>\<open>null\<close>).\<close>

definition numberFixed :: "platform \<Rightarrow> number option \<Rightarrow> nat \<Rightarrow> string" where
  "numberFixed pf n decimals =
     (case n of None \<Rightarrow> ''-'' | Some x \<Rightarrow> numberFormat pf decimals x)"

definition formatChange :: "platform \<Rightarrow> number option \<Rightarrow> string \<Rightarrow> nat \<Rightarrow> string" where
  "formatChange pf changePercent suffix decimals =
     (case changePercent of
        None \<Rightarrow> ''N/A''
      | Some c \<Rightarrow>
          (let sign = (if c > 0 then ''+'' else ''-'');
               val = numberFixed pf (Some \<bar>c\<bar>) decimals
           in if val = ''0'' then val @ suffix else sign @ val @ suffix))"

datatype StockChangeType = positive | negative | neutral

definition getChangeType :: "number option \<Rightarrow> StockChangeType" where
  "getChangeType changePercent =
     (case changePercent of
        None \<Rightarrow> neutral
      | Some c \<Rightarrow> if c = 0 then neutral else if c > 0 then positive else negative)"

definition GREEN_COLOR :: string where "GREEN_COLOR = ''#15803d''"
definition RED_COLOR :: string where "RED_COLOR = ''#E25C5C''"
definition NEUTRAL_COLOR :: string where "NEUTRAL_COLOR = ''#707070''"

datatype StockColorMode = GREEN_UP_RED_DOWN | RED_UP_GREEN_DOWN

fun useStockColors :: "StockColorMode \<Rightarrow> StockChangeType \<Rightarrow> string" where
  "useStockColors RED_UP_GREEN_DOWN positive = RED_COLOR"
| "useStockColors RED_UP_GREEN_DOWN negative = GREEN_COLOR"
| "useStockColors RED_UP_GREEN_DOWN neutral = NEUTRAL_COLOR"
| "useStockColors GREEN_UP_RED_DOWN positive = GREEN_COLOR"
| "useStockColors GREEN_UP_RED_DOWN negative = RED_COLOR"
| "useStockColors GREEN_UP_RED_DOWN neutral = NEUTRAL_COLOR"

section \<open>strategy-compose-list.tsx\<close>

text \<open>\<^verbatim>\<open>ActionItem\<close>: the memoised pair \<^verbatim>\<open>[pnl_value, changeType]\<close>.\<close>

definition pnl_value_changeType ::
  "platform \<Rightarrow> StrategyAction \<Rightarrow> string \<times> StockChangeType" where
  "pnl_value_changeType pf a =
     (if \<not> str_includes (action_literal (action a)) ''close''
      then (''-'', getChangeType None)
      else (let changeType = getChangeType (Some (realized_pnl a));
                formatPnl = formatChange pf (Some (realized_pnl a)) '''' 4
            in (formatPnl, changeType)))"

text \<open>
  What \<^verbatim>\<open>ActionItem\<close> shows of the realized PnL: the button row shows the value only when
  \<^verbatim>\<open>realized_pnl !== 0\<close>, the hover card header always; both in the colour of the change
  type.
\<close>

record pnl_span =
  span_text :: string
  span_color :: string

definition action_pnl_span :: "platform \<Rightarrow> StockColorMode \<Rightarrow> StrategyAction \<Rightarrow> pnl_span" where
  "action_pnl_span pf mode a =
     (let (pnl_value, changeType) = pnl_value_changeType pf a
      in \<lparr>span_text = pnl_value, span_color = useStockColors mode changeType\<rparr>)"

definition button_pnl ::
  "platform \<Rightarrow> StockColorMode \<Rightarrow> StrategyAction \<Rightarrow> pnl_span option" where
  "button_pnl pf mode a =
     (if realized_pnl a \<noteq> 0 then Some (action_pnl_span pf mode a) else None)"

definition hover_card_pnl :: "platform \<Rightarrow> StockColorMode \<Rightarrow> StrategyAction \<Rightarrow> pnl_span" where
  "hover_card_pnl pf mode a = action_pnl_span pf mode a"

text \<open>\<^verbatim>\<open>StrategyComposeList\<close>: the label in the header of the trading history.\<close>

definition history_header_label :: "trading_mode \<Rightarrow> string" where
  "history_header_label tradingMode =
     (if trading_mode_literal tradingMode = ''live'' then ''Live Trading'' else ''Virtual Trading'')"

section \<open>TradeStrategyCard\<close>

definition card_mode_badge :: "Strategy \<Rightarrow> string" where
  "card_mode_badge strategy =
     (if trading_mode_literal (trading_mode strategy) = ''live'' then ''Live'' else ''Virtual'')"






section \<open>create-strategy-modal.tsx\<close>

subsection \<open>The zod schemas used by the forms\<close>

datatype znum_check = NMin number string | NMax number string

text \<open>
  Field schemas: \<^verbatim>\<open>z.string()\<close> with its \<^verbatim>\<open>.min(n, message)\<close> refinements,
  \<^verbatim>\<open>z.literal\<close>, \<^verbatim>\<open>z.enum\<close>, \<^verbatim>\<open>z.number()\<close> with \<^verbatim>\<open>.min\<close>/\<^verbatim>\<open>.max\<close>, and
  \<^verbatim>\<open>z.array(el).min(n, message)\<close>.
\<close>

datatype zfield =
    ZString "(nat \<times> string) list"
  | ZLiteral string
  | ZEnum "string list"
  | ZNumber "znum_check list"
  | ZArray zfield "(nat \<times> string) list"

fun znum_ok :: "number \<Rightarrow> znum_check \<Rightarrow> bool" where
  "znum_ok x (NMin lo msg) = (lo \<le> x)"
| "znum_ok x (NMax hi msg) = (x \<le> hi)"

fun zfield_ok :: "zfield \<Rightarrow> jsval \<Rightarrow> bool" where
  "zfield_ok (ZString mins) v =
     (case v of JStr s \<Rightarrow> list_all (\<lambda>(n, msg). n \<le> length s) mins | _ \<Rightarrow> False)"
| "zfield_ok (ZLiteral l) v = (v = JStr l)"
| "zfield_ok (ZEnum ls) v = (case v of JStr s \<Rightarrow> s \<in> set ls | _ \<Rightarrow> False)"
| "zfield_ok (ZNumber cs) v = (case v of JNum x \<Rightarrow> list_all (znum_ok x) cs | _ \<Rightarrow> False)"
| "zfield_ok (ZArray el mins) v =
     (case v of
        JArr xs \<Rightarrow> list_all (zfield_ok el) xs \<and> list_all (\<lambda>(n, msg). n \<le> length xs) mins
      | _ \<Rightarrow> False)"

text \<open>
  \<^verbatim>\<open>z.object(shape)\<close>: the input is an object and every key of the shape validates
  against the input's value at that key (an absent key fails every field schema used
  here). \<^verbatim>\<open>z.union(options)\<close>: some option accepts the input.
\<close>

type_synonym zshape = "(string \<times> zfield) list"

definition z_object :: "zshape \<Rightarrow> jsval \<Rightarrow> bool" where
  "z_object shape v =
     (case v of
        JObj kvs \<Rightarrow>
          list_all (\<lambda>(k, f). case map_of kvs k of None \<Rightarrow> False | Some x \<Rightarrow> zfield_ok f x) shape
      | _ \<Rightarrow> False)"

definition z_union :: "zshape list \<Rightarrow> jsval \<Rightarrow> bool" where
  "z_union options v = list_ex (\<lambda>shape. z_object shape v) options"

definition step1Schema :: zshape where
  "step1Schema = obj_literal
     [(''provider'', ZString [(1, ''Model platform is required'')]),
      (''model_id'', ZString [(1, ''Model selection is required'')]),
      (''api_key'', ZString [(1, ''API key is required'')])]"

definition baseStep2Fields :: zshape where
  "baseStep2Fields =
     [(''exchange_id'', ZString []),
      (''api_key'', ZString []),
      (''secret_key'', ZString []),
      (''passphrase'', ZString []),
      (''wallet_address'', ZString []),
      (''private_key'', ZString [])]"

definition step2Schema :: "zshape list" where
  "step2Schema =
     [obj_literal (baseStep2Fields @
        [(''trading_mode'', ZLiteral ''virtual'')]),
      obj_literal (baseStep2Fields @
        [(''trading_mode'', ZLiteral ''live''),
         (''exchange_id'', ZLiteral ''hyperliquid''),
         (''wallet_address'', ZString [(1, ''Wallet Address is required for Hyperliquid'')]),
         (''private_key'', ZString [(1, ''Private Key is required for Hyperliquid'')])]),
      obj_literal (baseStep2Fields @
        [(''trading_mode'', ZLiteral ''live''),
         (''exchange_id'', ZEnum [''okx'', ''coinbaseexchange'', ''weex'']),
         (''api_key'', ZString [(1, ''API key is required'')]),
         (''secret_key'', ZString [(1, ''Secret key is required'')]),
         (''passphrase'', ZString [(1, ''Passphrase is required'')])]),
      obj_literal (baseStep2Fields @
        [(''trading_mode'', ZLiteral ''live''),
         (''exchange_id'', ZEnum [''binance'', ''blockchaincom'', ''gate'', ''mexc'']),
         (''api_key'', ZString [(1, ''API key is required'')]),
         (''secret_key'', ZString [(1, ''Secret key is required'')])])]"

definition step3Schema :: zshape where
  "step3Schema = obj_literal
     [(''strategy_type'', ZEnum [''PromptBasedStrategy'', ''GridStrategy'']),
      (''strategy_name'', ZString [(1, ''Strategy name is required'')]),
      (''initial_capital'', ZNumber [NMin 1 ''Initial capital must be at least 1'']),
      (''max_leverage'',
         ZNumber [NMin 1 ''Leverage must be at least 1'', NMax 5 ''Leverage must be at most 5'']),
      (''symbols'', ZArray (ZString []) [(1, ''At least one symbol is required'')]),
      (''template_id'', ZString [(1, ''Template selection is required'')])]"

subsection \<open>The values of the three forms\<close>

text \<open>
  The state of each form is an object with the keys of its \<^verbatim>\<open>defaultValues\<close>; the fields
  are edited, the keys never change.
\<close>

definition form1_values :: "string \<Rightarrow> string \<Rightarrow> string \<Rightarrow> jsval" where
  "form1_values provider model api_key = JObj (obj_literal
     [(''provider'', JStr provider),
      (''model_id'', JStr model),
      (''api_key'', JStr api_key)])"

definition form2_values ::
  "trading_mode \<Rightarrow> string \<Rightarrow> string \<Rightarrow> string \<Rightarrow> string \<Rightarrow> string \<Rightarrow> string \<Rightarrow> jsval" where
  "form2_values mode exchange api_key secret_key passphrase wallet_address private_key =
     JObj (obj_literal
       [(''trading_mode'', JStr (trading_mode_literal mode)),
        (''exchange_id'', JStr exchange),
        (''api_key'', JStr api_key),
        (''secret_key'', JStr secret_key),
        (''passphrase'', JStr passphrase),
        (''wallet_address'', JStr wallet_address),
        (''private_key'', JStr private_key)])"

definition form3_values ::
  "string \<Rightarrow> string \<Rightarrow> number \<Rightarrow> number \<Rightarrow> string list \<Rightarrow> string \<Rightarrow> jsval" where
  "form3_values stype name initial_capital max_leverage symbols template =
     JObj (obj_literal
       [(''strategy_type'', JStr stype),
        (''strategy_name'', JStr name),
        (''initial_capital'', JNum initial_capital),
        (''max_leverage'', JNum max_leverage),
        (''symbols'', JArr (map JStr symbols)),
        (''template_id'', JStr template)])"

subsection \<open>Submitting the third form\<close>

datatype http_request = POST string jsval

text \<open>\<^verbatim>\<open>useCreateStrategy\<close> (api/strategy.ts): the mutation posts its argument.\<close>

definition createStrategy :: "jsval \<Rightarrow> http_request" where
  "createStrategy data = POST ''/strategies/create'' data"

definition form3_onSubmit :: "jsval \<Rightarrow> jsval \<Rightarrow> jsval \<Rightarrow> http_request" where
  "form3_onSubmit form1_state form2_state val =
     (let payload = JObj (obj_literal
            [(''llm_model_config'', form1_state),
             (''exchange_config'', form2_state),
             (''trading_config'', val)])
      in createStrategy payload)"

text \<open>
  \<^verbatim>\<open>form3.handleSubmit()\<close>: the \<^verbatim>\<open>onSubmit\<close> validator runs first, and \<^verbatim>\<open>onSubmit\<close> is
  called with the form's values only when it accepts them.
\<close>

definition form3_handleSubmit :: "jsval \<Rightarrow> jsval \<Rightarrow> jsval \<Rightarrow> http_request option" where
  "form3_handleSubmit form1_state form2_state val =
     (if z_object step3Schema val then Some (form3_onSubmit form1_state form2_state val) else None)"

definition request_path :: "http_request \<Rightarrow> string" where
  "request_path r = (case r of POST path body \<Rightarrow> path)"

definition request_trading_config :: "http_request \<Rightarrow> jsval option" where
  "request_trading_config r = (case r of POST path body \<Rightarrow> obj_get body ''trading_config'')"

section \<open>portfolio-positions-group.tsx\<close>

subsection \<open>The displayed metrics\<close>

definition hasAccountInfo :: "AccountInfo option \<Rightarrow> bool" where
  "hasAccountInfo accountInfo =
     (case accountInfo of
        None \<Rightarrow> False
      | Some a \<Rightarrow> total_equity a > 0 \<or> total_available a > 0)"

definition hasAssets :: "StrategyAssets option \<Rightarrow> bool" where
  "hasAssets assetsProp =
     (case assetsProp of None \<Rightarrow> False | Some s \<Rightarrow> length (assets s) > 0)"

definition isWeex :: "platform \<Rightarrow> string option \<Rightarrow> bool" where
  "isWeex pf exchangeId =
     (case exchangeId of None \<Rightarrow> False | Some e \<Rightarrow> toLowerCase pf e = ''weex'')"

text \<open>\<^verbatim>\<open>x || 0\<close> on a number.\<close>

definition or0 :: "number \<Rightarrow> number" where
  "or0 x = (if x = 0 then 0 else x)"

record asset_totals =
  assetsTotalEquity :: number
  assetsAvailableBalance :: number
  assetsTotalPnl :: number

definition add_asset :: "platform \<Rightarrow> ExchangeAsset \<Rightarrow> asset_totals \<Rightarrow> asset_totals" where
  "add_asset pf asset t =
     \<lparr>assetsTotalEquity = num_add pf (assetsTotalEquity t) (or0 (equity asset)),
      assetsAvailableBalance = num_add pf (assetsAvailableBalance t) (or0 (available asset)),
      assetsTotalPnl = num_add pf (assetsTotalPnl t) (or0 (asset_unrealized_pnl asset))\<rparr>"

text \<open>The body of the \<^verbatim>\<open>for (const asset of assets.assets)\<close> loop, and the loop.\<close>

definition asset_step ::
  "platform \<Rightarrow> bool \<Rightarrow> ExchangeAsset \<Rightarrow> asset_totals \<Rightarrow> asset_totals" where
  "asset_step pf weex asset t =
     (let coinName = toUpperCase pf (coin_name asset)
      in if weex
         then (if coinName = ''USDT'' \<or> coinName = ''USD'' \<or> coinName = ''USDC''
               then add_asset pf asset t else t)
         else add_asset pf asset t)"

fun assets_loop ::
  "platform \<Rightarrow> bool \<Rightarrow> ExchangeAsset list \<Rightarrow> asset_totals \<Rightarrow> asset_totals" where
  "assets_loop pf weex [] t = t"
| "assets_loop pf weex (asset # rest) t = assets_loop pf weex rest (asset_step pf weex asset t)"

definition zero_totals :: asset_totals where
  "zero_totals = \<lparr>assetsTotalEquity = 0, assetsAvailableBalance = 0, assetsTotalPnl = 0\<rparr>"

definition assetsTotals ::
  "platform \<Rightarrow> AccountInfo option \<Rightarrow> StrategyAssets option \<Rightarrow> string option
     \<Rightarrow> asset_totals" where
  "assetsTotals pf accountInfo assetsProp exchangeId =
     (if \<not> hasAccountInfo accountInfo \<and> hasAssets assetsProp
      then (case assetsProp of
              Some s \<Rightarrow> assets_loop pf (isWeex pf exchangeId) (assets s) zero_totals
            | None \<Rightarrow> zero_totals)
      else zero_totals)"

definition useAccountInfo :: "AccountInfo option \<Rightarrow> bool" where
  "useAccountInfo accountInfo = hasAccountInfo accountInfo"

definition useAssetsData ::
  "platform \<Rightarrow> AccountInfo option \<Rightarrow> StrategyAssets option \<Rightarrow> string option \<Rightarrow> bool" where
  "useAssetsData pf accountInfo assetsProp exchangeId =
     (let t = assetsTotals pf accountInfo assetsProp exchangeId
      in \<not> hasAccountInfo accountInfo \<and> hasAssets assetsProp \<and>
         (assetsTotalEquity t > 0 \<or> assetsAvailableBalance t > 0))"

definition displayTotalEquity ::
  "platform \<Rightarrow> PortfolioSummary option \<Rightarrow> StrategyAssets option \<Rightarrow> AccountInfo option
     \<Rightarrow> string option \<Rightarrow> number" where
  "displayTotalEquity pf summary assetsProp accountInfo exchangeId =
     (if useAccountInfo accountInfo
      then (case accountInfo of Some a \<Rightarrow> total_equity a | None \<Rightarrow> 0)
      else if useAssetsData pf accountInfo assetsProp exchangeId
      then assetsTotalEquity (assetsTotals pf accountInfo assetsProp exchangeId)
      else (case summary of Some s \<Rightarrow> total_value s | None \<Rightarrow> 0))"

definition displayAvailableBalance ::
  "platform \<Rightarrow> PortfolioSummary option \<Rightarrow> StrategyAssets option \<Rightarrow> AccountInfo option
     \<Rightarrow> string option \<Rightarrow> number" where
  "displayAvailableBalance pf summary assetsProp accountInfo exchangeId =
     (if useAccountInfo accountInfo
      then (case accountInfo of Some a \<Rightarrow> total_available a | None \<Rightarrow> 0)
      else if useAssetsData pf accountInfo assetsProp exchangeId
      then assetsAvailableBalance (assetsTotals pf accountInfo assetsProp exchangeId)
      else (case summary of Some s \<Rightarrow> cash s | None \<Rightarrow> 0))"

definition displayTotalPnl ::
  "platform \<Rightarrow> PortfolioSummary option \<Rightarrow> StrategyAssets option \<Rightarrow> AccountInfo option
     \<Rightarrow> string option \<Rightarrow> number" where
  "displayTotalPnl pf summary assetsProp accountInfo exchangeId =
     (if useAssetsData pf accountInfo assetsProp exchangeId
      then assetsTotalPnl (assetsTotals pf accountInfo assetsProp exchangeId)
      else (case summary of Some s \<Rightarrow> total_pnl s | None \<Rightarrow> 0))"

definition useExchangeData ::
  "platform \<Rightarrow> AccountInfo option \<Rightarrow> StrategyAssets option \<Rightarrow> string option \<Rightarrow> bool" where
  "useExchangeData pf accountInfo assetsProp exchangeId =
     (useAccountInfo accountInfo \<or> useAssetsData pf accountInfo assetsProp exchangeId)"

subsection \<open>The enhanced price curve\<close>

text \<open>
  A row of the price curve is an array of numbers and strings. \<^verbatim>\<open>String(curve[i][0])\<close>
  reads the first cell as a string; how a number prints is a parameter \<open>ns\<close>, and a row
  with no cell reads as \<^verbatim>\<open>"undefined"\<close>.
\<close>

datatype cell = CNum number | CStr string

type_synonym row = "cell list"

definition rowTimeString :: "(number \<Rightarrow> string) \<Rightarrow> row \<Rightarrow> string" where
  "rowTimeString ns r =
     (case r of [] \<Rightarrow> ''undefined'' | CStr s # _ \<Rightarrow> s | CNum n # _ \<Rightarrow> ns n)"

text \<open>
  \<^verbatim>\<open>for (let i = 1; i < curve.length; i++) { if (...) { existingIndex = i; break; } }\<close>,
  started at index \<open>i\<close> on the rows from \<open>i\<close> on; \<open>-1\<close> when no row matches.
\<close>

fun findExisting :: "(number \<Rightarrow> string) \<Rightarrow> string \<Rightarrow> nat \<Rightarrow> row list \<Rightarrow> int" where
  "findExisting ns currentMinute i [] = - 1"
| "findExisting ns currentMinute i (r # rs) =
     (let rowTime = slice0 16 (rowTimeString ns r)
      in if rowTime = currentMinute then int i
         else findExisting ns currentMinute (Suc i) rs)"

text \<open>
  \<^verbatim>\<open>for (let i = 1; i < curve.length; i++) { if (rowTime > timeStr) { insertIndex = i;
  break; } }\<close>, started at index \<open>i\<close>; \<open>len\<close> is \<^verbatim>\<open>curve.length\<close>, the initial
  \<^verbatim>\<open>insertIndex\<close>.
\<close>

fun findInsert :: "(number \<Rightarrow> string) \<Rightarrow> string \<Rightarrow> nat \<Rightarrow> nat \<Rightarrow> row list \<Rightarrow> nat" where
  "findInsert ns timeStr len i [] = len"
| "findInsert ns timeStr len i (r # rs) =
     (let rowTime = rowTimeString ns r
      in if rowTime > timeStr then i
         else findInsert ns timeStr len (Suc i) rs)"

text \<open>\<^verbatim>\<open>curve.splice(i, 0, x)\<close>\<close>

definition splice_in :: "nat \<Rightarrow> 'a \<Rightarrow> 'a list \<Rightarrow> 'a list" where
  "splice_in i x xs = take i xs @ [x] @ drop i xs"

text \<open>
  The body of the immediately invoked function; \<open>timeStr\<close> is the current time as
  \<^verbatim>\<open>now.toISOString().slice(0, 19).replace('T', ' ')\<close>.
\<close>

definition addCurrentPoint ::
  "(number \<Rightarrow> string) \<Rightarrow> string \<Rightarrow> number \<Rightarrow> row list \<Rightarrow> row list" where
  "addCurrentPoint ns timeStr eq priceCurve =
     (let curve = priceCurve
      in if length curve = 0
         then [[CStr ''Time'', CStr ''Portfolio Value''], [CStr timeStr, CNum eq]]
         else
           (let currentMinute = slice0 16 timeStr;
                existingIndex = findExisting ns currentMinute 1 (drop 1 curve)
            in if existingIndex > 0
               then curve[nat existingIndex := [CStr timeStr, CNum eq]]
               else
                 (let insertIndex = findInsert ns timeStr (length curve) 1 (drop 1 curve)
                  in splice_in insertIndex [CStr timeStr, CNum eq] curve)))"

definition enhancedPriceCurve ::
  "platform \<Rightarrow> (number \<Rightarrow> string) \<Rightarrow> string \<Rightarrow> row list \<Rightarrow> PortfolioSummary option
     \<Rightarrow> StrategyAssets option \<Rightarrow> AccountInfo option \<Rightarrow> string option \<Rightarrow> row list" where
  "enhancedPriceCurve pf ns timeStr priceCurve summary assetsProp accountInfo exchangeId =
     (if useExchangeData pf accountInfo assetsProp exchangeId \<and>
         displayTotalEquity pf summary assetsProp accountInfo exchangeId > 0
      then addCurrentPoint ns timeStr
             (displayTotalEquity pf summary assetsProp accountInfo exchangeId) priceCurve
      else priceCurve)"

text \<open>The time strings of the data rows (the rows after the header row).\<close>

definition dataTimes :: "(number \<Rightarrow> string) \<Rightarrow> row list \<Rightarrow> string list" where
  "dataTimes ns curve = map (rowTimeString ns) (drop 1 curve)"

section \<open>The trading core described by the specification\<close>

text \<open>
  The Python package \<^verbatim>\<open>valuecell/agents/common/trading\<close> is present only through its
  README; the definitions of this section follow the specification's data model (section 3)
  and component contracts (sections 4.2 and 4.4).
\<close>

text \<open>Modelled from the spec: the status of a \<^verbatim>\<open>TxResult\<close> (models.py is missing).\<close>

datatype TxStatus = FILLED | PARTIAL | REJECTED | ERROR

text \<open>Modelled from the spec: the \<^verbatim>\<open>TxResult\<close> record of the execution gateway (models.py
  is missing); the instrument is its symbol.\<close>

record TxResult =
  tx_instruction_id :: string
  tx_instrument :: string
  tx_side :: trade_side
  tx_status :: TxStatus
  requested_qty :: number
  filled_qty :: number
  avg_exec_price :: "number option"
  tx_fee_cost :: "number option"
  tx_leverage :: "number option"

text \<open>Modelled from the spec: the \<^verbatim>\<open>PositionSnapshot\<close> fields that applying a trade
  determines (models.py is missing): the signed quantity (positive long, negative short),
  the average entry price and the leverage.\<close>

record PositionSnapshot =
  pos_quantity :: number
  avg_price :: number
  pos_leverage :: "number option"

text \<open>Modelled from the spec: the close event of a \<^verbatim>\<open>TradeHistoryEntry\<close> (models.py is
  missing).\<close>

record CloseEvent =
  close_instruction_id :: string
  close_instrument :: string
  close_quantity :: number
  close_entry_price :: number
  close_exit_price :: number
  close_realized_pnl :: number

text \<open>Modelled from the spec: the state of the in-memory Portfolio Service
  (portfolio/in_memory.py is missing): the cash balance, the positions by symbol and the
  close events emitted so far.\<close>

record Ledger =
  account_balance :: number
  positions :: "string \<rightharpoonup> PositionSnapshot"
  closes :: "CloseEvent list"

text \<open>Modelled from the spec: the part of \<^verbatim>\<open>PortfolioView\<close> that \<^verbatim>\<open>get_view\<close> copies from
  the ledger (portfolio/in_memory.py is missing).\<close>

record PortfolioView =
  view_account_balance :: number
  view_positions :: "string \<rightharpoonup> PositionSnapshot"

text \<open>Modelled from the spec: \<^verbatim>\<open>get_view\<close> of the Portfolio Service
  (portfolio/in_memory.py is missing).\<close>

definition get_view :: "Ledger \<Rightarrow> PortfolioView" where
  "get_view l = \<lparr>view_account_balance = account_balance l, view_positions = positions l\<rparr>"

text \<open>Modelled from the spec: the signed change of quantity of a fill, "increases/decreases
  the relevant position's signed quantity by filled_qty according to side"
  (portfolio/in_memory.py is missing).\<close>

definition signed_fill :: "TxResult \<Rightarrow> number" where
  "signed_fill tx = (if tx_side tx = BUY then filled_qty tx else - filled_qty tx)"

text \<open>Modelled from the spec: a fill of signed quantity \<open>d\<close> at price \<open>p\<close> against an
  existing position (portfolio/in_memory.py is missing). A fill on the position's side
  adds to the quantity and moves the average entry price to the quantity-weighted average;
  an opposite fill realizes PnL on the closed quantity from the average entry price against
  the execution price, emits a close event when it fully closes or crosses zero, removes a
  fully closed position, and opens the remainder at the execution price when it crosses
  zero. The result is the new position (if any), the realized PnL and the close events.\<close>

definition fill_position ::
  "TxResult \<Rightarrow> number \<Rightarrow> number \<Rightarrow> PositionSnapshot
     \<Rightarrow> PositionSnapshot option \<times> number \<times> CloseEvent list" where
  "fill_position tx d p pos =
     (let q = pos_quantity pos in
      if (0 < q \<and> 0 < d) \<or> (q < 0 \<and> d < 0)
      then (Some (pos\<lparr>pos_quantity := q + d,
                       avg_price := (\<bar>q\<bar> * avg_price pos + \<bar>d\<bar> * p) / (\<bar>q\<bar> + \<bar>d\<bar>)\<rparr>), 0, [])
      else
        (let closed = min \<bar>q\<bar> \<bar>d\<bar>;
             realized = closed * (p - avg_price pos) * sgn q;
             ev = \<lparr>close_instruction_id = tx_instruction_id tx,
                   close_instrument = tx_instrument tx,
                   close_quantity = closed,
                   close_entry_price = avg_price pos,
                   close_exit_price = p,
                   close_realized_pnl = realized\<rparr>
         in if \<bar>d\<bar> < \<bar>q\<bar> then (Some (pos\<lparr>pos_quantity := q + d\<rparr>), realized, [])
            else if \<bar>d\<bar> = \<bar>q\<bar> then (None, realized, [ev])
            else (Some \<lparr>pos_quantity = q + d, avg_price = p, pos_leverage = tx_leverage tx\<rparr>,
                  realized, [ev])))"

text \<open>Modelled from the spec: applying one \<^verbatim>\<open>TxResult\<close> to the ledger
  (portfolio/in_memory.py is missing). REJECTED and ERROR results are no-ops; a FILLED or
  PARTIAL result with a fill and an execution price opens, extends, reduces or closes the
  position of its instrument, and the balance moves by the realized PnL less the fee.\<close>

definition apply_trade :: "Ledger \<Rightarrow> TxResult \<Rightarrow> Ledger" where
  "apply_trade l tx =
     (if tx_status tx = REJECTED \<or> tx_status tx = ERROR then l
      else
        (case avg_exec_price tx of
           None \<Rightarrow> l
         | Some p \<Rightarrow>
             (let d = signed_fill tx;
                  fee = (case tx_fee_cost tx of None \<Rightarrow> 0 | Some f \<Rightarrow> f)
              in if d = 0 then l
                 else
                   (case positions l (tx_instrument tx) of
                      None \<Rightarrow>
                        l\<lparr>account_balance := account_balance l - fee,
                          positions := (positions l)(tx_instrument tx \<mapsto>
                            \<lparr>pos_quantity = d, avg_price = p, pos_leverage = tx_leverage tx\<rparr>)\<rparr>
                    | Some pos \<Rightarrow>
                        (let (pos', realized, evs) = fill_position tx d p pos
                         in l\<lparr>account_balance := account_balance l + realized - fee,
                              positions := (positions l)(tx_instrument tx := pos'),
                              closes := closes l @ evs\<rparr>)))))"

text \<open>Modelled from the spec: \<^verbatim>\<open>apply_trades(trades, market_features)\<close> of the Portfolio
  Service (portfolio/in_memory.py is missing): the results are applied in order. The
  specification gives the market features no part in the ledger rule.\<close>

definition apply_trades :: "Ledger \<Rightarrow> TxResult list \<Rightarrow> 'features \<Rightarrow> Ledger" where
  "apply_trades l trades market_features = foldl apply_trade l trades"

text \<open>Modelled from the spec: the \<^verbatim>\<open>constraints\<close> of a portfolio view, "max leverage / max
  concurrent positions" (models.py is missing).\<close>

record Constraints =
  max_leverage :: number
  max_positions :: nat




section \<open>Notions used in the statements\<close>

text \<open>A row lies in the current minute when its time agrees with \<open>timeStr\<close> on the
  first 16 characters (\<^verbatim>\<open>YYYY-MM-DD HH:MM\<close>), the test of the first loop.\<close>

definition inMinute :: "(number \<Rightarrow> string) \<Rightarrow> string \<Rightarrow> row \<Rightarrow> bool" where
  "inMinute ns timeStr r = (slice0 16 (rowTimeString ns r) = slice0 16 timeStr)"

section \<open>The strategy card and the trading-history header\<close>


text \<open>
  Claim C7. Every strategy's trading mode is either "live" or "virtual"; the header of
  the trading history reads "Live Trading" exactly when the mode is "live" and "Virtual
  Trading" otherwise, and the badge of the strategy card reads "Live" exactly when the
  mode is "live" and "Virtual" otherwise.
\<close>

theorem trading_mode_labels:
  "(trading_mode_literal (trading_mode s) = ''live'')
     = (trading_mode_literal (trading_mode s) \<noteq> ''virtual'') \<and>
   (history_header_label (trading_mode s) = ''Live Trading'')
     = (trading_mode_literal (trading_mode s) = ''live'') \<and>
   (history_header_label (trading_mode s) = ''Virtual Trading'')
     = (trading_mode_literal (trading_mode s) \<noteq> ''live'') \<and>
   (card_mode_badge s = ''Live'') = (trading_mode_literal (trading_mode s) = ''live'') \<and>
   (card_mode_badge s = ''Virtual'') = (trading_mode_literal (trading_mode s) \<noteq> ''live'')"
  by (cases "trading_mode s") (simp_all add: history_header_label_def card_mode_badge_def)

section \<open>The realized PnL of an action\<close>

lemma formatChange_explicit:
  "formatChange pf (Some c) sfx d =
     (if numberFormat pf d \<bar>c\<bar> = ''0'' then ''0'' @ sfx
      else (if 0 < c then ''+'' else ''-'') @ numberFormat pf d \<bar>c\<bar> @ sfx)"
  by (simp add: formatChange_def numberFixed_def Let_def)

lemma formatChange_not_dash:
  assumes "numberFormat pf d \<bar>c\<bar> \<noteq> []"
  shows "formatChange pf (Some c) [] d \<noteq> ''-''"
proof -
  obtain x xs where v: "numberFormat pf d \<bar>c\<bar> = x # xs"
    using assms by (cases "numberFormat pf d \<bar>c\<bar>") auto
  show ?thesis
    by (simp add: formatChange_explicit v)
qed

lemma includes_close: "str_includes (action_literal k) ''close'' = (k = close_long \<or> k = close_short)"
  by (cases k) simp_all

lemma show_nat_not_empty: "show_nat n \<noteq> []"
  by (subst show_nat.simps) simp

lemma decimal_format_not_empty: "decimal_format d x \<noteq> []"
  by (simp add: decimal_format_def Let_def show_nat_not_empty)

lemma show_nat_digit: "n < 10 \<Longrightarrow> show_nat n = [digit_char n]"
  by (subst show_nat.simps) simp

lemma show_nat_more:
  "\<not> n < 10 \<Longrightarrow> show_nat n = show_nat (n div 10) @ [digit_char (n mod 10)]"
  by (subst show_nat.simps) simp

lemma frac_digits_numeral:
  "frac_digits (numeral k) m = frac_digits (pred_numeral k) (m div 10) @ [digit_char (m mod 10)]"
  by (simp only: numeral_eq_Suc[of k] frac_digits.simps)

lemma decimal_format_examples:
  "decimal_format 4 (25 / 2) = ''12.5'' \<and> decimal_format 4 (3 / 8) = ''0.375'' \<and>
   decimal_format 4 0 = ''0''"
proof -
  have a: "\<lfloor>\<bar>25 / 2 :: rat\<bar> * 10 ^ 4 + 1 / 2\<rfloor> = 125000"
    by (rule floor_unique) simp_all
  have b: "\<lfloor>\<bar>3 / 8 :: rat\<bar> * 10 ^ 4 + 1 / 2\<rfloor> = 3750"
    by (rule floor_unique) simp_all
  have c: "\<lfloor>\<bar>0 :: rat\<bar> * 10 ^ 4 + 1 / 2\<rfloor> = 0"
    by (rule floor_unique) simp_all
  have "decimal_format 4 (25 / 2) = ''12.5''"
    unfolding decimal_format_def Let_def a
    by (simp add: show_nat_digit show_nat_more frac_digits_numeral digit_char_def)
  moreover have "decimal_format 4 (3 / 8) = ''0.375''"
    unfolding decimal_format_def Let_def b
    by (simp add: show_nat_digit show_nat_more frac_digits_numeral digit_char_def)
  moreover have "decimal_format 4 0 = ''0''"
    unfolding decimal_format_def Let_def c
    by (simp add: show_nat_digit show_nat_more frac_digits_numeral digit_char_def)
  ultimately show ?thesis by simp
qed

text \<open>
  Claim C5. The realized-PnL value shown for an action is the signed formatted
  \<^verbatim>\<open>realized_pnl\<close> if and only if the action name contains "close": it is then
  \<^verbatim>\<open>formatChange(realized_pnl, "", 4)\<close>, that is, the absolute value formatted with at most
  4 fraction digits, preceded by "+" when \<^verbatim>\<open>realized_pnl\<close> is positive and by "-"
  otherwise, and without sign when it formats as "0"; its colour is that of the sign of
  \<^verbatim>\<open>realized_pnl\<close>. For an open action the value is "-" in the neutral colour. The hover
  card always shows this value; the button row shows it when \<^verbatim>\<open>realized_pnl\<close> is not 0.
  (The number format of the platform never yields the empty string.)
\<close>

theorem action_pnl_display:
  assumes "numberFormat pf 4 \<bar>realized_pnl a\<bar> \<noteq> ''''"
  shows
  "pnl_value_changeType pf a =
     (if str_includes (action_literal (action a)) ''close''
      then ((if numberFormat pf 4 \<bar>realized_pnl a\<bar> = ''0'' then ''0''
             else (if 0 < realized_pnl a then ''+'' else ''-'')
                    @ numberFormat pf 4 \<bar>realized_pnl a\<bar>),
            (if realized_pnl a = 0 then neutral
             else if 0 < realized_pnl a then positive else negative))
      else (''-'', neutral)) \<and>
   formatChange pf (Some (realized_pnl a)) '''' 4 =
     (if numberFormat pf 4 \<bar>realized_pnl a\<bar> = ''0'' then ''0''
      else (if 0 < realized_pnl a then ''+'' else ''-'') @ numberFormat pf 4 \<bar>realized_pnl a\<bar>) \<and>
   (fst (pnl_value_changeType pf a) = formatChange pf (Some (realized_pnl a)) '''' 4)
     = str_includes (action_literal (action a)) ''close'' \<and>
   str_includes (action_literal (action a)) ''close''
     = (action a = close_long \<or> action a = close_short) \<and>
   hover_card_pnl pf mode a =
     \<lparr>span_text = fst (pnl_value_changeType pf a),
      span_color = (if str_includes (action_literal (action a)) ''close''
                    then useStockColors mode (getChangeType (Some (realized_pnl a)))
                    else NEUTRAL_COLOR)\<rparr> \<and>
   button_pnl pf mode a =
     (if realized_pnl a \<noteq> 0 then Some (hover_card_pnl pf mode a) else None)"
proof -
  have ne: "''-'' \<noteq> formatChange pf (Some (realized_pnl a)) '''' 4"
    using formatChange_not_dash[OF assms] by metis
  have fc: "formatChange pf (Some (realized_pnl a)) '''' 4 =
     (if numberFormat pf 4 \<bar>realized_pnl a\<bar> = ''0'' then ''0''
      else (if 0 < realized_pnl a then ''+'' else ''-'') @ numberFormat pf 4 \<bar>realized_pnl a\<bar>)"
    by (simp add: formatChange_explicit)
  have col: "useStockColors mode neutral = NEUTRAL_COLOR"
    by (cases mode) simp_all
  have pv: "pnl_value_changeType pf a =
     (if str_includes (action_literal (action a)) ''close''
      then (formatChange pf (Some (realized_pnl a)) '''' 4, getChangeType (Some (realized_pnl a)))
      else (''-'', neutral))"
    by (simp add: pnl_value_changeType_def getChangeType_def Let_def)
  have ct: "getChangeType (Some (realized_pnl a)) =
     (if realized_pnl a = 0 then neutral else if 0 < realized_pnl a then positive else negative)"
    by (simp add: getChangeType_def)
  have c1: "pnl_value_changeType pf a =
     (if str_includes (action_literal (action a)) ''close''
      then ((if numberFormat pf 4 \<bar>realized_pnl a\<bar> = ''0'' then ''0''
             else (if 0 < realized_pnl a then ''+'' else ''-'')
                    @ numberFormat pf 4 \<bar>realized_pnl a\<bar>),
            (if realized_pnl a = 0 then neutral
             else if 0 < realized_pnl a then positive else negative))
      else (''-'', neutral))"
    unfolding pv fc ct ..
  have c3: "(fst (pnl_value_changeType pf a) = formatChange pf (Some (realized_pnl a)) '''' 4)
     = str_includes (action_literal (action a)) ''close''"
    using ne by (simp add: pv)
  have c5: "hover_card_pnl pf mode a =
     \<lparr>span_text = fst (pnl_value_changeType pf a),
      span_color = (if str_includes (action_literal (action a)) ''close''
                    then useStockColors mode (getChangeType (Some (realized_pnl a)))
                    else NEUTRAL_COLOR)\<rparr>"
    by (simp add: hover_card_pnl_def action_pnl_span_def pv col)
  have c6: "button_pnl pf mode a =
     (if realized_pnl a \<noteq> 0 then Some (hover_card_pnl pf mode a) else None)"
    by (simp add: button_pnl_def hover_card_pnl_def)
  show ?thesis
    using c1 fc c3 includes_close[of "action a"] c5 c6 by blast
qed

theorem action_pnl_display_witness:
  "hover_card_pnl ascii_platform GREEN_UP_RED_DOWN
     \<lparr>instruction_id = ''i7'', symbol = ''BTC-USDT'', action = close_long,
      action_display = ''CLOSE LONG'', side = SELL, quantity = 1, leverage = 2,
      entry_price = 50000, exit_price = Some 50012, entry_at = ''2025-01-01 10:00:00'',
      exit_at = Some ''2025-01-01 11:00:00'', fee_cost = 0, realized_pnl = 25 / 2,
      realized_pnl_pct = 1 / 40, rationale = ''take profit'', holding_time_ms = 3600000\<rparr>
   = \<lparr>span_text = ''+12.5'', span_color = ''#15803d''\<rparr> \<and>
   hover_card_pnl ascii_platform GREEN_UP_RED_DOWN
     \<lparr>instruction_id = ''i9'', symbol = ''ETH-USDT'', action = close_short,
      action_display = ''CLOSE SHORT'', side = BUY, quantity = 1, leverage = 2,
      entry_price = 2000, exit_price = Some 2001, entry_at = ''2025-01-01 10:00:00'',
      exit_at = Some ''2025-01-01 11:00:00'', fee_cost = 0, realized_pnl = - (3 / 8),
      realized_pnl_pct = - (1 / 40), rationale = ''stop loss'', holding_time_ms = 3600000\<rparr>
   = \<lparr>span_text = ''-0.375'', span_color = ''#E25C5C''\<rparr> \<and>
   hover_card_pnl ascii_platform GREEN_UP_RED_DOWN
     \<lparr>instruction_id = ''i8'', symbol = ''BTC-USDT'', action = open_long,
      action_display = ''OPEN LONG'', side = BUY, quantity = 1, leverage = 2,
      entry_price = 50000, exit_price = None, entry_at = ''2025-01-01 10:00:00'',
      exit_at = None, fee_cost = 0, realized_pnl = 0,
      realized_pnl_pct = 0, rationale = ''enter'', holding_time_ms = 0\<rparr>
   = \<lparr>span_text = ''-'', span_color = ''#707070''\<rparr> \<and>
   button_pnl ascii_platform GREEN_UP_RED_DOWN
     \<lparr>instruction_id = ''i8'', symbol = ''BTC-USDT'', action = open_long,
      action_display = ''OPEN LONG'', side = BUY, quantity = 1, leverage = 2,
      entry_price = 50000, exit_price = None, entry_at = ''2025-01-01 10:00:00'',
      exit_at = None, fee_cost = 0, realized_pnl = 0,
      realized_pnl_pct = 0, rationale = ''enter'', holding_time_ms = 0\<rparr>
   = None"
proof -
  let ?a = "\<lparr>instruction_id = ''i7'', symbol = ''BTC-USDT'', action = close_long,
      action_display = ''CLOSE LONG'', side = SELL, quantity = 1, leverage = 2,
      entry_price = 50000, exit_price = Some 50012, entry_at = ''2025-01-01 10:00:00'',
      exit_at = Some ''2025-01-01 11:00:00'', fee_cost = 0, realized_pnl = 25 / 2,
      realized_pnl_pct = 1 / 40, rationale = ''take profit'', holding_time_ms = 3600000\<rparr>"
  let ?b = "\<lparr>instruction_id = ''i9'', symbol = ''ETH-USDT'', action = close_short,
      action_display = ''CLOSE SHORT'', side = BUY, quantity = 1, leverage = 2,
      entry_price = 2000, exit_price = Some 2001, entry_at = ''2025-01-01 10:00:00'',
      exit_at = Some ''2025-01-01 11:00:00'', fee_cost = 0, realized_pnl = - (3 / 8),
      realized_pnl_pct = - (1 / 40), rationale = ''stop loss'', holding_time_ms = 3600000\<rparr>"
  let ?c = "\<lparr>instruction_id = ''i8'', symbol = ''BTC-USDT'', action = open_long,
      action_display = ''OPEN LONG'', side = BUY, quantity = 1, leverage = 2,
      entry_price = 50000, exit_price = None, entry_at = ''2025-01-01 10:00:00'',
      exit_at = None, fee_cost = 0, realized_pnl = 0,
      realized_pnl_pct = 0, rationale = ''enter'', holding_time_ms = 0\<rparr>"
  have nf: "numberFormat ascii_platform = decimal_format"
    by (simp add: ascii_platform_def)
  have ha: "numberFormat ascii_platform 4 \<bar>realized_pnl ?a\<bar> \<noteq> ''''"
    and hb: "numberFormat ascii_platform 4 \<bar>realized_pnl ?b\<bar> \<noteq> ''''"
    and hc: "numberFormat ascii_platform 4 \<bar>realized_pnl ?c\<bar> \<noteq> ''''"
    unfolding nf by (rule decimal_format_not_empty)+
  show ?thesis
    using action_pnl_display [OF ha, of GREEN_UP_RED_DOWN]
      action_pnl_display [OF hb, of GREEN_UP_RED_DOWN]
      action_pnl_display [OF hc, of GREEN_UP_RED_DOWN]
      decimal_format_examples
    by (simp add: nf getChangeType_def GREEN_COLOR_def RED_COLOR_def NEUTRAL_COLOR_def)
qed

section \<open>The exchange step of the create-strategy form\<close>

text \<open>
  Claim C9. A step-2 exchange configuration passes validation if and only if the trading
  mode is "virtual" (any credential fields); or the mode is "live" and the exchange is
  "hyperliquid" with non-empty wallet address and private key; or the mode is "live" and
  the exchange is one of okx, coinbaseexchange, weex with non-empty API key, secret key
  and passphrase; or the mode is "live" and the exchange is one of binance,
  blockchaincom, gate, mexc with non-empty API key and secret key.
\<close>

theorem step2Schema_accepts_iff:
  "z_union step2Schema (form2_values m ex ak sk pp wa pk) =
     (trading_mode_literal m = ''virtual''
      \<or> (trading_mode_literal m = ''live'' \<and> ex = ''hyperliquid'' \<and> wa \<noteq> [] \<and> pk \<noteq> [])
      \<or> (trading_mode_literal m = ''live'' \<and> ex \<in> {''okx'', ''coinbaseexchange'', ''weex''}
           \<and> ak \<noteq> [] \<and> sk \<noteq> [] \<and> pp \<noteq> [])
      \<or> (trading_mode_literal m = ''live''
           \<and> ex \<in> {''binance'', ''blockchaincom'', ''gate'', ''mexc''} \<and> ak \<noteq> [] \<and> sk \<noteq> []))"
  by (cases m)
     (simp_all add: z_union_def step2Schema_def obj_literal_def baseStep2Fields_def
        form2_values_def z_object_def Suc_le_eq)

theorem step2Schema_accepts_iff_witness:
  "z_union step2Schema (form2_values Live ''weex'' ''k'' ''s'' ''p'' '''' '''') \<and>
   \<not> z_union step2Schema (form2_values Live ''okx'' '''' '''' '''' '''' '''') \<and>
   \<not> z_union step2Schema (form2_values Live ''kraken'' ''k'' ''s'' ''p'' ''w'' ''x'') \<and>
   z_union step2Schema (form2_values Virtual ''kraken'' '''' '''' '''' '''' '''') \<and>
   z_union step2Schema (form2_values Live ''hyperliquid'' '''' '''' '''' ''0xabc'' ''pk'') \<and>
   z_union step2Schema (form2_values Live ''binance'' ''k'' ''s'' '''' '''' '''')"
  using step2Schema_accepts_iff [of Live "''weex''" "''k''" "''s''" "''p''" "''''" "''''"]
    step2Schema_accepts_iff [of Live "''okx''" "''''" "''''" "''''" "''''" "''''"]
    step2Schema_accepts_iff [of Live "''kraken''" "''k''" "''s''" "''p''" "''w''" "''x''"]
    step2Schema_accepts_iff [of Virtual "''kraken''" "''''" "''''" "''''" "''''" "''''"]
    step2Schema_accepts_iff [of Live "''hyperliquid''" "''''" "''''" "''''" "''0xabc''" "''pk''"]
    step2Schema_accepts_iff [of Live "''binance''" "''k''" "''s''" "''''" "''''" "''''"]
  by simp

section \<open>The strategy-creation request\<close>

lemma obj_keys_form3_values:
  "obj_keys (form3_values st nm ic ml sy tp) =
     [''strategy_type'', ''strategy_name'', ''initial_capital'', ''max_leverage'', ''symbols'',
      ''template_id'']"
  by (simp add: form3_values_def obj_literal_def obj_keys_def)

lemma trading_config_onSubmit: "request_trading_config (form3_onSubmit f1 f2 v) = Some v"
  by (simp add: request_trading_config_def form3_onSubmit_def createStrategy_def obj_get_def
      obj_literal_def)

lemma request_path_onSubmit: "request_path (form3_onSubmit f1 f2 v) = ''/strategies/create''"
  by (simp add: form3_onSubmit_def createStrategy_def request_path_def)

lemma step3Schema_accepts_iff:
  "z_object step3Schema (form3_values st nm ic ml sy tp) =
     (st \<in> {''PromptBasedStrategy'', ''GridStrategy''} \<and> nm \<noteq> [] \<and> 1 \<le> ic \<and> 1 \<le> ml \<and>
      ml \<le> 5 \<and> sy \<noteq> [] \<and> tp \<noteq> [])"
  by (auto simp add: z_object_def step3Schema_def form3_values_def obj_literal_def Suc_le_eq
      list_all_iff)

text \<open>
  Claim C1, as stated, fails: the request submitted for a valid form carries a
  \<^verbatim>\<open>trading_config\<close> without \<^verbatim>\<open>max_positions\<close>, \<^verbatim>\<open>decide_interval\<close> and
  \<^verbatim>\<open>custom_prompt\<close>.
\<close>

theorem create_request_lacks_spec_fields:
  "form3_handleSubmit
     (form1_values ''openrouter'' ''deepseek-ai/deepseek-v3.1'' ''key'')
     (form2_values Virtual ''okx'' '''' '''' '''' '''' '''')
     (form3_values ''PromptBasedStrategy'' ''s1'' 1000 2 [''BTC''] ''t1'')
   = Some (form3_onSubmit
       (form1_values ''openrouter'' ''deepseek-ai/deepseek-v3.1'' ''key'')
       (form2_values Virtual ''okx'' '''' '''' '''' '''' '''')
       (form3_values ''PromptBasedStrategy'' ''s1'' 1000 2 [''BTC''] ''t1'')) \<and>
   request_trading_config (form3_onSubmit
       (form1_values ''openrouter'' ''deepseek-ai/deepseek-v3.1'' ''key'')
       (form2_values Virtual ''okx'' '''' '''' '''' '''' '''')
       (form3_values ''PromptBasedStrategy'' ''s1'' 1000 2 [''BTC''] ''t1''))
   = Some (form3_values ''PromptBasedStrategy'' ''s1'' 1000 2 [''BTC''] ''t1'') \<and>
   \<not> has_fields
       [''strategy_name'', ''initial_capital'', ''max_leverage'', ''max_positions'', ''symbols'',
        ''decide_interval'', ''custom_prompt'']
       (form3_values ''PromptBasedStrategy'' ''s1'' 1000 2 [''BTC''] ''t1'')"
  by (simp add: form3_handleSubmit_def step3Schema_accepts_iff trading_config_onSubmit
      has_fields_def obj_keys_form3_values)

text \<open>
  Claim C1, amended. Every strategy-creation request the program submits is a POST to
  \<^verbatim>\<open>/strategies/create\<close> whose \<^verbatim>\<open>trading_config\<close> is the value of the third form: its
  fields are exactly \<^verbatim>\<open>strategy_type\<close>, \<^verbatim>\<open>strategy_name\<close>, \<^verbatim>\<open>initial_capital\<close>,
  \<^verbatim>\<open>max_leverage\<close>, \<^verbatim>\<open>symbols\<close> and \<^verbatim>\<open>template_id\<close>, so it carries
  \<^verbatim>\<open>strategy_name\<close>, \<^verbatim>\<open>initial_capital\<close>, \<^verbatim>\<open>max_leverage\<close> and \<^verbatim>\<open>symbols\<close>, and no
  \<^verbatim>\<open>max_positions\<close>, \<^verbatim>\<open>decide_interval\<close> or \<^verbatim>\<open>custom_prompt\<close>.
\<close>

theorem create_request_trading_config_fields:
  assumes "form3_handleSubmit f1 f2 (form3_values st nm ic ml sy tp) = Some req"
  shows "request_path req = ''/strategies/create'' \<and>
     request_trading_config req = Some (form3_values st nm ic ml sy tp) \<and>
     obj_keys (form3_values st nm ic ml sy tp) =
       [''strategy_type'', ''strategy_name'', ''initial_capital'', ''max_leverage'', ''symbols'',
        ''template_id''] \<and>
     has_fields [''strategy_name'', ''initial_capital'', ''max_leverage'', ''symbols'']
       (form3_values st nm ic ml sy tp) \<and>
     ''max_positions'' \<notin> set (obj_keys (form3_values st nm ic ml sy tp)) \<and>
     ''decide_interval'' \<notin> set (obj_keys (form3_values st nm ic ml sy tp)) \<and>
     ''custom_prompt'' \<notin> set (obj_keys (form3_values st nm ic ml sy tp))"
proof -
  have req: "req = form3_onSubmit f1 f2 (form3_values st nm ic ml sy tp)"
    using assms by (simp add: form3_handleSubmit_def split: if_splits)
  show ?thesis
    by (simp add: req request_path_onSubmit trading_config_onSubmit obj_keys_form3_values
        has_fields_def)
qed

theorem create_request_trading_config_fields_witness:
  "form3_handleSubmit
     (form1_values ''openrouter'' ''deepseek-ai/deepseek-v3.1'' ''key'')
     (form2_values Live ''weex'' ''k'' ''s'' ''p'' '''' '''')
     (form3_values ''GridStrategy'' ''grid'' 500 5 [''BTC'', ''ETH''] ''t2'')
   = Some (form3_onSubmit
       (form1_values ''openrouter'' ''deepseek-ai/deepseek-v3.1'' ''key'')
       (form2_values Live ''weex'' ''k'' ''s'' ''p'' '''' '''')
       (form3_values ''GridStrategy'' ''grid'' 500 5 [''BTC'', ''ETH''] ''t2'')) \<and>
   request_path (form3_onSubmit
       (form1_values ''openrouter'' ''deepseek-ai/deepseek-v3.1'' ''key'')
       (form2_values Live ''weex'' ''k'' ''s'' ''p'' '''' '''')
       (form3_values ''GridStrategy'' ''grid'' 500 5 [''BTC'', ''ETH''] ''t2''))
   = ''/strategies/create'' \<and>
   obj_keys (form3_values ''GridStrategy'' ''grid'' 500 5 [''BTC'', ''ETH''] ''t2'') =
     [''strategy_type'', ''strategy_name'', ''initial_capital'', ''max_leverage'', ''symbols'',
      ''template_id'']"
proof -
  have h: "form3_handleSubmit
     (form1_values ''openrouter'' ''deepseek-ai/deepseek-v3.1'' ''key'')
     (form2_values Live ''weex'' ''k'' ''s'' ''p'' '''' '''')
     (form3_values ''GridStrategy'' ''grid'' 500 5 [''BTC'', ''ETH''] ''t2'')
   = Some (form3_onSubmit
       (form1_values ''openrouter'' ''deepseek-ai/deepseek-v3.1'' ''key'')
       (form2_values Live ''weex'' ''k'' ''s'' ''p'' '''' '''')
       (form3_values ''GridStrategy'' ''grid'' 500 5 [''BTC'', ''ETH''] ''t2''))"
    by (simp add: form3_handleSubmit_def step3Schema_accepts_iff)
  show ?thesis
    using h create_request_trading_config_fields [OF h] by simp
qed

section \<open>The displayed total equity\<close>

lemma or0_id: "or0 x = x"
  by (simp add: or0_def)

lemma assets_loop_folds:
  "assets_loop pf w as t =
     \<lparr>assetsTotalEquity = foldl (\<lambda>acc a. num_add pf acc (equity a)) (assetsTotalEquity t)
         (if w then filter (\<lambda>a. toUpperCase pf (coin_name a) \<in> {''USDT'', ''USD'', ''USDC''}) as
          else as),
      assetsAvailableBalance = foldl (\<lambda>acc a. num_add pf acc (available a))
         (assetsAvailableBalance t)
         (if w then filter (\<lambda>a. toUpperCase pf (coin_name a) \<in> {''USDT'', ''USD'', ''USDC''}) as
          else as),
      assetsTotalPnl = foldl (\<lambda>acc a. num_add pf acc (asset_unrealized_pnl a)) (assetsTotalPnl t)
         (if w then filter (\<lambda>a. toUpperCase pf (coin_name a) \<in> {''USDT'', ''USD'', ''USDC''}) as
          else as)\<rparr>"
proof (induction as arbitrary: t)
  case Nil
  show ?case by simp
next
  case (Cons a as)
  show ?case
    by (simp add: Cons.IH asset_step_def add_asset_def or0_id Let_def)
qed

text \<open>
  Claim C8, as stated, fails: with no account info, one asset of equity 0 and available
  balance 5, and a summary of total value 100, the computed equity sum is not positive,
  so the claim gives \<^verbatim>\<open>summary.total_value\<close> = 100, and the component displays 0.
\<close>

theorem displayTotalEquity_available_only:
  "displayTotalEquity ascii_platform
     (Some \<lparr>cash = 0, total_value = 100, total_pnl = 0\<rparr>)
     (Some \<lparr>assets_strategy_id = ''s1'', assets_exchange_id = ''binance'',
            assets = [\<lparr>coin_id = 1, coin_name = ''BTC'', available = 5, frozen = 0, equity = 0,
                       asset_unrealized_pnl = 0\<rparr>]\<rparr>)
     None (Some ''binance'') = 0 \<and>
   \<not> hasAccountInfo None \<and>
   \<not> 0 < sum_list (map equity
          [\<lparr>coin_id = 1, coin_name = ''BTC'', available = 5, frozen = 0, equity = 0,
            asset_unrealized_pnl = 0\<rparr>]) \<and>
   total_value \<lparr>cash = 0, total_value = 100, total_pnl = 0\<rparr> = 100"
  by (simp add: displayTotalEquity_def useAccountInfo_def useAssetsData_def assetsTotals_def
      hasAccountInfo_def hasAssets_def zero_totals_def Let_def asset_step_def add_asset_def
      or0_def isWeex_def ascii_platform_def ascii_toLowerCase_def ascii_toUpperCase_def
      upper_table_def)

text \<open>
  Claim C8, amended. The displayed Total Equity equals \<^verbatim>\<open>accountInfo.total_equity\<close> when
  \<^verbatim>\<open>accountInfo\<close> is present with \<^verbatim>\<open>total_equity > 0\<close> or \<^verbatim>\<open>total_available > 0\<close>;
  otherwise, when exchange assets are present and the computed equity total or the
  computed available-balance total is positive, it equals the computed equity total;
  otherwise it equals \<^verbatim>\<open>summary.total_value\<close>, defaulting to 0 when \<^verbatim>\<open>summary\<close> is
  absent. A computed total is the accumulation of the field, from 0 and in the order of
  the assets, with the platform's addition of numbers, over the counted assets: all
  assets, or, when the platform's lower-casing of \<^verbatim>\<open>exchangeId\<close> is "weex", those whose
  \<^verbatim>\<open>coin_name\<close> the platform upper-cases to USDT, USD or USDC.
\<close>

theorem displayTotalEquity_sources:
  "displayTotalEquity pf summary assetsProp accountInfo exchangeId =
     (let counted = (\<lambda>as. if isWeex pf exchangeId
                          then filter (\<lambda>a. toUpperCase pf (coin_name a)
                                              \<in> {''USDT'', ''USD'', ''USDC''}) as
                          else as);
          total = (\<lambda>field as. foldl (\<lambda>acc a. num_add pf acc (field a)) 0 (counted as));
          summaryValue = (case summary of Some s \<Rightarrow> total_value s | None \<Rightarrow> 0);
          fromAssets = (case assetsProp of
                          None \<Rightarrow> summaryValue
                        | Some s \<Rightarrow>
                            if assets s \<noteq> [] \<and>
                               (0 < total equity (assets s) \<or> 0 < total available (assets s))
                            then total equity (assets s)
                            else summaryValue)
      in case accountInfo of
           None \<Rightarrow> fromAssets
         | Some a \<Rightarrow>
             if 0 < total_equity a \<or> 0 < total_available a then total_equity a else fromAssets) \<and>
   isWeex pf exchangeId = (case exchangeId of None \<Rightarrow> False | Some e \<Rightarrow> toLowerCase pf e = ''weex'')"
  by (simp add: displayTotalEquity_def useAccountInfo_def useAssetsData_def assetsTotals_def
      hasAccountInfo_def hasAssets_def assets_loop_folds zero_totals_def Let_def isWeex_def
      split: option.splits)

theorem displayTotalEquity_sources_witness:
  "displayTotalEquity ascii_platform
     (Some \<lparr>cash = 40, total_value = 100, total_pnl = 0\<rparr>)
     (Some \<lparr>assets_strategy_id = ''s1'', assets_exchange_id = ''weex'',
            assets = [\<lparr>coin_id = 1, coin_name = ''usdt'', available = 50, frozen = 0,
                       equity = 70, asset_unrealized_pnl = 0\<rparr>,
                      \<lparr>coin_id = 2, coin_name = ''BTC'', available = 1, frozen = 0,
                       equity = 2, asset_unrealized_pnl = 0\<rparr>]\<rparr>)
     None (Some ''WEEX'') = 70 \<and>
   displayTotalEquity ascii_platform
     (Some \<lparr>cash = 40, total_value = 100, total_pnl = 0\<rparr>)
     (Some \<lparr>assets_strategy_id = ''s1'', assets_exchange_id = ''weex'',
            assets = [\<lparr>coin_id = 1, coin_name = ''usdt'', available = 50, frozen = 0,
                       equity = 70, asset_unrealized_pnl = 0\<rparr>,
                      \<lparr>coin_id = 2, coin_name = ''BTC'', available = 1, frozen = 0,
                       equity = 2, asset_unrealized_pnl = 0\<rparr>]\<rparr>)
     (Some \<lparr>account_strategy_id = ''s1'', account_exchange_id = ''weex'',
            total_equity = 0, total_available = 30, total_frozen = 0,
            account = None, collateral = None, position = None\<rparr>)
     (Some ''WEEX'') = 0 \<and>
   displayTotalEquity ascii_platform
     (Some \<lparr>cash = 40, total_value = 100, total_pnl = 0\<rparr>) None None None = 100"
  using
    displayTotalEquity_sources [of ascii_platform
      "Some \<lparr>cash = 40, total_value = 100, total_pnl = 0\<rparr>"
      "Some \<lparr>assets_strategy_id = ''s1'', assets_exchange_id = ''weex'',
            assets = [\<lparr>coin_id = 1, coin_name = ''usdt'', available = 50, frozen = 0,
                       equity = 70, asset_unrealized_pnl = 0\<rparr>,
                      \<lparr>coin_id = 2, coin_name = ''BTC'', available = 1, frozen = 0,
                       equity = 2, asset_unrealized_pnl = 0\<rparr>]\<rparr>"
      None "Some ''WEEX''"]
    displayTotalEquity_sources [of ascii_platform
      "Some \<lparr>cash = 40, total_value = 100, total_pnl = 0\<rparr>"
      "Some \<lparr>assets_strategy_id = ''s1'', assets_exchange_id = ''weex'',
            assets = [\<lparr>coin_id = 1, coin_name = ''usdt'', available = 50, frozen = 0,
                       equity = 70, asset_unrealized_pnl = 0\<rparr>,
                      \<lparr>coin_id = 2, coin_name = ''BTC'', available = 1, frozen = 0,
                       equity = 2, asset_unrealized_pnl = 0\<rparr>]\<rparr>"
      "Some \<lparr>account_strategy_id = ''s1'', account_exchange_id = ''weex'',
            total_equity = 0, total_available = 30, total_frozen = 0,
            account = None, collateral = None, position = None\<rparr>"
      "Some ''WEEX''"]
    displayTotalEquity_sources [of ascii_platform
      "Some \<lparr>cash = 40, total_value = 100, total_pnl = 0\<rparr>" None None None]
  by (simp add: ascii_platform_def ascii_toLowerCase_def ascii_toUpperCase_def upper_table_def)

section \<open>The portfolio ledger\<close>

lemma apply_trade_failed: "tx_status t = REJECTED \<or> tx_status t = ERROR \<Longrightarrow> apply_trade l t = l"
  by (simp add: apply_trade_def)

lemma apply_trades_failed:
  "list_all (\<lambda>t. tx_status t = REJECTED \<or> tx_status t = ERROR) ts \<Longrightarrow> apply_trades l ts mf = l"
  by (induction ts arbitrary: l) (simp_all add: apply_trades_def apply_trade_failed)

text \<open>
  Claim C2. Applying a TxResult whose status is REJECTED or ERROR is a no-op on the
  ledger: for every ledger state and every such result (and every list of such results)
  \<^verbatim>\<open>apply_trades\<close> returns the ledger as it was, balance, positions and close events, so
  the positions of the portfolio view are unchanged.
\<close>

theorem apply_trades_failed_noop:
  assumes "tx_status t = REJECTED \<or> tx_status t = ERROR"
      and "list_all (\<lambda>t. tx_status t = REJECTED \<or> tx_status t = ERROR) ts"
  shows "apply_trades l [t] mf = l \<and>
         apply_trades l ts mf = l \<and>
         get_view (apply_trades l [t] mf) = get_view l \<and>
         view_positions (get_view (apply_trades l [t] mf)) = view_positions (get_view l) \<and>
         view_positions (get_view (apply_trades l ts mf)) = view_positions (get_view l)"
  using assms apply_trades_failed[of "[t]" l mf] apply_trades_failed[of ts l mf] by simp

theorem apply_trades_failed_noop_witness:
  "tx_status \<lparr>tx_instruction_id = ''i1'', tx_instrument = ''BTC-USDT'', tx_side = SELL,
              tx_status = REJECTED, requested_qty = 1, filled_qty = 1,
              avg_exec_price = Some 51000, tx_fee_cost = Some 3, tx_leverage = None\<rparr> = REJECTED \<and>
   apply_trades
       \<lparr>account_balance = 10000,
        positions = [''BTC-USDT'' \<mapsto> \<lparr>pos_quantity = 1, avg_price = 50000, pos_leverage = None\<rparr>],
        closes = []\<rparr>
       [\<lparr>tx_instruction_id = ''i1'', tx_instrument = ''BTC-USDT'', tx_side = SELL,
         tx_status = REJECTED, requested_qty = 1, filled_qty = 1,
         avg_exec_price = Some 51000, tx_fee_cost = Some 3, tx_leverage = None\<rparr>] ()
   = \<lparr>account_balance = 10000,
      positions = [''BTC-USDT'' \<mapsto> \<lparr>pos_quantity = 1, avg_price = 50000, pos_leverage = None\<rparr>],
      closes = []\<rparr> \<and>
   view_positions (get_view (apply_trades
       \<lparr>account_balance = 10000,
        positions = [''BTC-USDT'' \<mapsto> \<lparr>pos_quantity = 1, avg_price = 50000, pos_leverage = None\<rparr>],
        closes = []\<rparr>
       [\<lparr>tx_instruction_id = ''i1'', tx_instrument = ''BTC-USDT'', tx_side = SELL,
         tx_status = REJECTED, requested_qty = 1, filled_qty = 1,
         avg_exec_price = Some 51000, tx_fee_cost = Some 3, tx_leverage = None\<rparr>] ()))
   = [''BTC-USDT'' \<mapsto> \<lparr>pos_quantity = 1, avg_price = 50000, pos_leverage = None\<rparr>]"
  using apply_trades_failed_noop
    [of "\<lparr>tx_instruction_id = ''i1'', tx_instrument = ''BTC-USDT'', tx_side = SELL,
          tx_status = REJECTED, requested_qty = 1, filled_qty = 1,
          avg_exec_price = Some 51000, tx_fee_cost = Some 3, tx_leverage = None\<rparr>"
        "[]"
        "\<lparr>account_balance = 10000,
          positions = [''BTC-USDT'' \<mapsto> \<lparr>pos_quantity = 1, avg_price = 50000, pos_leverage = None\<rparr>],
          closes = []\<rparr>"
        "()"]
  by (simp add: get_view_def)

text \<open>
  Claim C3. For a position built by same-side fills the average entry price is the
  quantity-weighted average of the fill prices, not a replacement: opening \<open>q1\<close> units at
  price \<open>p1\<close> and then adding \<open>q2\<close> units at price \<open>p2\<close> on the same side yields average
  entry price \<open>(q1 * p1 + q2 * p2) / (q1 + q2)\<close> and quantity \<open>q1 + q2\<close> (negative for a
  short); 1.0 at 100 and then 1.0 at 110 yield 105 and 2.0.
\<close>

theorem same_side_fill_weighted_average:
  assumes "positions l s = None" and "0 < q1" and "0 < q2"
      and "tx_status t1 = FILLED \<or> tx_status t1 = PARTIAL"
      and "tx_status t2 = FILLED \<or> tx_status t2 = PARTIAL"
      and "tx_instrument t1 = s" and "tx_instrument t2 = s" and "tx_side t2 = tx_side t1"
      and "filled_qty t1 = q1" and "filled_qty t2 = q2"
      and "avg_exec_price t1 = Some p1" and "avg_exec_price t2 = Some p2"
  shows "map_option avg_price (view_positions (get_view (apply_trades l [t1, t2] mf)) s)
           = Some ((q1 * p1 + q2 * p2) / (q1 + q2)) \<and>
         map_option pos_quantity (view_positions (get_view (apply_trades l [t1, t2] mf)) s)
           = Some (if tx_side t1 = BUY then q1 + q2 else - (q1 + q2))"
  using assms
  by (auto simp: apply_trades_def apply_trade_def get_view_def signed_fill_def
      fill_position_def Let_def)

theorem same_side_fill_weighted_average_witness:
  "map_option avg_price (view_positions (get_view (apply_trades
       \<lparr>account_balance = 10000, positions = Map.empty, closes = []\<rparr>
       [\<lparr>tx_instruction_id = ''i1'', tx_instrument = ''BTC-USDT'', tx_side = BUY,
         tx_status = FILLED, requested_qty = 1, filled_qty = 1,
         avg_exec_price = Some 100, tx_fee_cost = None, tx_leverage = None\<rparr>,
        \<lparr>tx_instruction_id = ''i2'', tx_instrument = ''BTC-USDT'', tx_side = BUY,
         tx_status = FILLED, requested_qty = 1, filled_qty = 1,
         avg_exec_price = Some 110, tx_fee_cost = None, tx_leverage = None\<rparr>] ()))
     ''BTC-USDT'') = Some 105 \<and>
   map_option pos_quantity (view_positions (get_view (apply_trades
       \<lparr>account_balance = 10000, positions = Map.empty, closes = []\<rparr>
       [\<lparr>tx_instruction_id = ''i1'', tx_instrument = ''BTC-USDT'', tx_side = BUY,
         tx_status = FILLED, requested_qty = 1, filled_qty = 1,
         avg_exec_price = Some 100, tx_fee_cost = None, tx_leverage = None\<rparr>,
        \<lparr>tx_instruction_id = ''i2'', tx_instrument = ''BTC-USDT'', tx_side = BUY,
         tx_status = FILLED, requested_qty = 1, filled_qty = 1,
         avg_exec_price = Some 110, tx_fee_cost = None, tx_leverage = None\<rparr>] ()))
     ''BTC-USDT'') = Some 2"
  using same_side_fill_weighted_average
    [of "\<lparr>account_balance = 10000, positions = Map.empty, closes = []\<rparr>" "''BTC-USDT''" 1 1
        "\<lparr>tx_instruction_id = ''i1'', tx_instrument = ''BTC-USDT'', tx_side = BUY,
          tx_status = FILLED, requested_qty = 1, filled_qty = 1,
          avg_exec_price = Some 100, tx_fee_cost = None, tx_leverage = None\<rparr>"
        "\<lparr>tx_instruction_id = ''i2'', tx_instrument = ''BTC-USDT'', tx_side = BUY,
          tx_status = FILLED, requested_qty = 1, filled_qty = 1,
          avg_exec_price = Some 110, tx_fee_cost = None, tx_leverage = None\<rparr>"
        100 110 "()"]
  by simp

section \<open>Sides and quantities of instructions and actions\<close>






section \<open>The enhanced price curve\<close>

lemma take_lex_mono: "(xs :: 'a :: linorder list) \<le> ys \<Longrightarrow> take n xs \<le> take n ys"
proof (induction n arbitrary: xs ys)
  case 0 show ?case by simp
next
  case (Suc n)
  show ?case
  proof (cases xs)
    case Nil then show ?thesis by simp
  next
    case (Cons a as)
    then obtain b bs where ys: "ys = b # bs" using Suc.prems by (cases ys) auto
    show ?thesis using Suc.prems Suc.IH[of as bs] Cons ys by auto
  qed
qed

lemma take_lex_less: "take n (xs :: 'a :: linorder list) < take n ys \<Longrightarrow> xs < ys"
proof (induction n arbitrary: xs ys)
  case 0 then show ?case by simp
next
  case (Suc n)
  show ?case
  proof (cases xs)
    case Nil then show ?thesis using Suc.prems by (cases ys) auto
  next
    case (Cons a as)
    then obtain b bs where ys: "ys = b # bs" using Suc.prems by (cases ys) auto
    show ?thesis using Suc.prems Suc.IH[of as bs] Cons ys by auto
  qed
qed

lemma findExisting_takeWhile:
  "findExisting ns cm i rs =
     (if \<exists>r\<in>set rs. slice0 16 (rowTimeString ns r) = cm
      then int (i + length (takeWhile (\<lambda>r. slice0 16 (rowTimeString ns r) \<noteq> cm) rs))
      else - 1)"
  by (induction rs arbitrary: i) (auto simp: Let_def)

lemma findInsert_takeWhile:
  "findInsert ns t (i + length rs) i rs = i + length (takeWhile (\<lambda>r. \<not> t < rowTimeString ns r) rs)"
proof (induction rs arbitrary: i)
  case Nil show ?case by simp
next
  case (Cons r rs)
  show ?case using Cons.IH[of "Suc i"] by (simp add: Let_def)
qed

lemma update_at_takeWhile:
  assumes "\<exists>r\<in>set rs. \<not> P r"
  shows "rs[length (takeWhile P rs) := p] = takeWhile P rs @ p # tl (dropWhile P rs)"
proof -
  have ne: "dropWhile P rs \<noteq> []" using assms by simp
  then obtain d ds where d: "dropWhile P rs = d # ds" by (cases "dropWhile P rs") auto
  have "rs = takeWhile P rs @ d # ds" using d takeWhile_dropWhile_id[of P rs] by simp
  then have "rs[length (takeWhile P rs) := p] = (takeWhile P rs @ d # ds)[length (takeWhile P rs) := p]" by simp
  also have "\<dots> = takeWhile P rs @ p # ds" by (simp add: list_update_append)
  finally show ?thesis using d by simp
qed


lemma addCurrentPoint_replace:
  assumes "\<exists>r\<in>set rs. inMinute ns t r"
  shows "addCurrentPoint ns t eq (h # rs) =
     h # takeWhile (\<lambda>r. \<not> inMinute ns t r) rs @ [CStr t, CNum eq] # tl (dropWhile (\<lambda>r. \<not> inMinute ns t r) rs)"
proof -
  let ?P = "\<lambda>r. \<not> inMinute ns t r"
  have ex: "\<exists>r\<in>set rs. slice0 16 (rowTimeString ns r) = slice0 16 t"
    using assms by (simp add: inMinute_def)
  have P: "(\<lambda>r. slice0 16 (rowTimeString ns r) \<noteq> slice0 16 t) = ?P"
    by (simp add: inMinute_def)
  have idx: "findExisting ns (slice0 16 t) 1 rs = int (1 + length (takeWhile ?P rs))"
    using ex by (simp add: findExisting_takeWhile P del: One_nat_def)
  have d1: "drop 1 (h # rs) = rs" by simp
  have pos: "0 < findExisting ns (slice0 16 t) 1 rs" using idx by simp
  have e: "nat (findExisting ns (slice0 16 t) 1 rs) = 1 + length (takeWhile ?P rs)"
    using idx by simp
  have "addCurrentPoint ns t eq (h # rs) = (h # rs)[1 + length (takeWhile ?P rs) := [CStr t, CNum eq]]"
    by (simp add: addCurrentPoint_def Let_def d1 pos e del: One_nat_def)
  also have "\<dots> = h # rs[length (takeWhile ?P rs) := [CStr t, CNum eq]]" by simp
  also have "\<dots> = h # takeWhile ?P rs @ [CStr t, CNum eq] # tl (dropWhile ?P rs)"
    using assms by (simp add: update_at_takeWhile)
  finally show ?thesis .
qed

lemma addCurrentPoint_insert:
  assumes "\<forall>r\<in>set rs. \<not> inMinute ns t r"
  shows "addCurrentPoint ns t eq (h # rs) =
     h # takeWhile (\<lambda>r. \<not> t < rowTimeString ns r) rs @ [CStr t, CNum eq] # dropWhile (\<lambda>r. \<not> t < rowTimeString ns r) rs"
proof -
  let ?Q = "\<lambda>r. \<not> t < rowTimeString ns r"
  have nex: "\<not> (\<exists>r\<in>set rs. slice0 16 (rowTimeString ns r) = slice0 16 t)"
    using assms by (simp add: inMinute_def)
  have idx: "findExisting ns (slice0 16 t) 1 rs = - 1"
    using nex by (simp add: findExisting_takeWhile del: One_nat_def)
  have ins: "findInsert ns t (length (h # rs)) 1 rs = 1 + length (takeWhile ?Q rs)"
    using findInsert_takeWhile[of ns t 1 rs] by simp
  have d1: "drop 1 (h # rs) = rs" by simp
  have "addCurrentPoint ns t eq (h # rs) = splice_in (1 + length (takeWhile ?Q rs)) [CStr t, CNum eq] (h # rs)"
    using ins by (simp add: addCurrentPoint_def Let_def d1 idx del: One_nat_def)
  also have "\<dots> = h # takeWhile ?Q rs @ [CStr t, CNum eq] # dropWhile ?Q rs"
    by (simp add: splice_in_def takeWhile_eq_take[symmetric] dropWhile_eq_drop[symmetric])
  finally show ?thesis .
qed


lemma sorted_insert_point:
  fixes f :: "'a \<Rightarrow> string"
  assumes srt: "sorted (map f rs)" and p: "f p = t"
  shows "sorted (map f (takeWhile (\<lambda>r. \<not> t < f r) rs @ p # dropWhile (\<lambda>r. \<not> t < f r) rs))"
proof -
  let ?Q = "\<lambda>r. \<not> t < f r"
  let ?A = "takeWhile ?Q rs" and ?B = "dropWhile ?Q rs"
  have split: "sorted (map f (?A @ ?B))" using srt by simp
  have sA: "sorted (map f ?A)" and sB: "sorted (map f ?B)"
    and AB: "\<forall>a\<in>set ?A. \<forall>b\<in>set ?B. f a \<le> f b"
    using split unfolding map_append sorted_append by auto
  have A_le: "\<forall>a\<in>set ?A. f a \<le> t"
    by (auto dest!: set_takeWhileD simp: not_less)
  have B_ge: "t \<le> f b" if b: "b \<in> set ?B" for b
  proof -
    obtain d ds where d: "?B = d # ds" using b by (cases ?B) auto
    have "t < f d" using hd_dropWhile[of ?Q rs] d by auto
    moreover have "f d \<le> f b" using sB b unfolding d by auto
    ultimately show ?thesis by simp
  qed
  show ?thesis
    unfolding map_append sorted_append
    using sA sB AB A_le B_ge p by auto
qed

lemma sorted_replace_point:
  fixes f :: "'a \<Rightarrow> string"
  assumes srt: "sorted (map f (A @ r # B))"
      and r: "take n (f r) = take n t"
      and A: "\<forall>a\<in>set A. take n (f a) \<noteq> take n t"
      and B: "\<forall>b\<in>set B. take n (f b) \<noteq> take n t"
      and p: "f p = t"
  shows "sorted (map f (A @ p # B))"
proof -
  have sA: "sorted (map f A)" and sB: "sorted (map f B)"
    and Ar: "\<forall>a\<in>set A. f a \<le> f r" and rB: "\<forall>b\<in>set B. f r \<le> f b"
    and AB: "\<forall>a\<in>set A. \<forall>b\<in>set B. f a \<le> f b"
    using srt unfolding map_append sorted_append by auto
  have A_le: "f a \<le> t" if "a \<in> set A" for a
  proof -
    have "take n (f a) \<le> take n (f r)" using Ar that by (simp add: take_lex_mono)
    then have "take n (f a) < take n t" using A that r by auto
    then show ?thesis using take_lex_less[of n "f a" t] by simp
  qed
  have B_ge: "t \<le> f b" if "b \<in> set B" for b
  proof -
    have "take n (f r) \<le> take n (f b)" using rB that by (simp add: take_lex_mono)
    then have "take n t < take n (f b)" using B that r by auto
    then show ?thesis using take_lex_less[of n t "f b"] by simp
  qed
  show ?thesis
    unfolding map_append sorted_append
    using sA sB AB A_le B_ge p by auto
qed

lemma rowTime_point: "rowTimeString ns [CStr t, CNum eq] = t"
  by (simp add: rowTimeString_def)

text \<open>
  Claim C10, amended. When exchange data is used and the displayed total equity is
  positive, the enhanced price curve of an empty price curve is the header row followed
  by the row \<open>[timeStr, displayTotalEquity]\<close>. For a price curve with a header row it has at
  most one row more than the input, and either the first data row of the current minute
  is replaced in place by \<open>[timeStr, displayTotalEquity]\<close> and every other row is
  unchanged, or no data row lies in the current minute and the row is inserted between
  two parts of the input. If the data rows of the input are sorted by time, the result
  with the inserted row is sorted by time, and the result with the replaced row is sorted
  by time when no later data row lies in the current minute.
\<close>

theorem enhancedPriceCurve_point:
  assumes ex: "useExchangeData pf accountInfo assetsProp exchangeId"
      and pos: "0 < displayTotalEquity pf summary assetsProp accountInfo exchangeId"
  shows "let p = [CStr timeStr, CNum (displayTotalEquity pf summary assetsProp accountInfo exchangeId)];
             out = enhancedPriceCurve pf ns timeStr priceCurve summary assetsProp accountInfo exchangeId
         in (priceCurve = [] \<longrightarrow> out = [[CStr ''Time'', CStr ''Portfolio Value''], p]) \<and>
            (\<forall>h rows. priceCurve = h # rows \<longrightarrow>
               length out \<le> length priceCurve + 1 \<and>
               ((\<exists>A r B. rows = A @ r # B \<and> inMinute ns timeStr r \<and>
                          (\<forall>x\<in>set A. \<not> inMinute ns timeStr x) \<and> out = h # A @ p # B \<and>
                          (sorted (dataTimes ns priceCurve) \<and> (\<forall>x\<in>set B. \<not> inMinute ns timeStr x)
                             \<longrightarrow> sorted (dataTimes ns out)))
                \<or> ((\<forall>x\<in>set rows. \<not> inMinute ns timeStr x) \<and>
                    (\<exists>A B. rows = A @ B \<and> out = h # A @ p # B) \<and>
                    (sorted (dataTimes ns priceCurve) \<longrightarrow> sorted (dataTimes ns out)))))"
proof -
  define eq where "eq = displayTotalEquity pf summary assetsProp accountInfo exchangeId"
  define p where "p = [CStr timeStr, CNum eq]"
  define out where "out = enhancedPriceCurve pf ns timeStr priceCurve summary assetsProp accountInfo exchangeId"
  have out: "out = addCurrentPoint ns timeStr eq priceCurve"
    using ex pos by (simp add: out_def enhancedPriceCurve_def eq_def)
  have fp: "rowTimeString ns p = timeStr" by (simp add: p_def rowTime_point)
  have e: "priceCurve = [] \<longrightarrow> out = [[CStr ''Time'', CStr ''Portfolio Value''], p]"
    by (simp add: out addCurrentPoint_def p_def)
  have n: "length out \<le> length priceCurve + 1
      \<and> ((\<exists>A r B. rows = A @ r # B \<and> inMinute ns timeStr r \<and>
                          (\<forall>x\<in>set A. \<not> inMinute ns timeStr x) \<and> out = h # A @ p # B \<and>
                          (sorted (dataTimes ns priceCurve) \<and> (\<forall>x\<in>set B. \<not> inMinute ns timeStr x)
                             \<longrightarrow> sorted (dataTimes ns out)))
                \<or> ((\<forall>x\<in>set rows. \<not> inMinute ns timeStr x) \<and>
                    (\<exists>A B. rows = A @ B \<and> out = h # A @ p # B) \<and>
                    (sorted (dataTimes ns priceCurve) \<longrightarrow> sorted (dataTimes ns out))))"
    if pc: "priceCurve = h # rows" for h rows
  proof (cases "\<exists>r\<in>set rows. inMinute ns timeStr r")
    case True
    let ?P = "\<lambda>r. \<not> inMinute ns timeStr r"
    let ?A = "takeWhile ?P rows"
    have ne: "dropWhile ?P rows \<noteq> []" using True by simp
    then obtain r B where d: "dropWhile ?P rows = r # B" by (cases "dropWhile ?P rows") auto
    have rows: "rows = ?A @ r # B" using takeWhile_dropWhile_id[of ?P rows] d by simp
    have r: "inMinute ns timeStr r" using hd_dropWhile[of ?P rows] d by auto
    have A: "\<forall>x\<in>set ?A. \<not> inMinute ns timeStr x" using set_takeWhileD[of _ ?P rows] by auto
    have o: "out = h # ?A @ p # B"
      using addCurrentPoint_replace[OF True, of eq h] d by (simp add: out pc p_def)
    have len: "length out \<le> length priceCurve + 1"
      by (subst o, subst pc, subst (2) rows) simp
    have s: "sorted (dataTimes ns out)"
      if "sorted (dataTimes ns priceCurve)" and "\<forall>x\<in>set B. \<not> inMinute ns timeStr x"
    proof -
      have "sorted (map (rowTimeString ns) (?A @ r # B))"
        using that(1) rows by (simp add: dataTimes_def pc)
      then have "sorted (map (rowTimeString ns) (?A @ p # B))"
        using sorted_replace_point[of "rowTimeString ns" ?A r B 16 timeStr p] r A that(2) fp
        by (simp add: inMinute_def slice0_def)
      then show ?thesis by (simp add: dataTimes_def o)
    qed
    show ?thesis using rows r A o len s by blast
  next
    case False
    let ?Q = "\<lambda>r. \<not> timeStr < rowTimeString ns r"
    have none: "\<forall>r\<in>set rows. \<not> inMinute ns timeStr r" using False by simp
    have o: "out = h # takeWhile ?Q rows @ p # dropWhile ?Q rows"
      using addCurrentPoint_insert[OF none, of eq h] by (simp add: out pc p_def)
    have len: "length out \<le> length priceCurve + 1"
    proof -
      have "length (takeWhile ?Q rows) + length (dropWhile ?Q rows) = length rows"
        using takeWhile_dropWhile_id[of ?Q rows] length_append[of "takeWhile ?Q rows" "dropWhile ?Q rows"]
        by simp
      then show ?thesis by (simp add: o pc)
    qed
    have s: "sorted (dataTimes ns out)" if "sorted (dataTimes ns priceCurve)"
      using sorted_insert_point[of "rowTimeString ns" rows p timeStr] that fp
      by (simp add: dataTimes_def o pc)
    have "\<exists>A B. rows = A @ B \<and> out = h # A @ p # B"
      using o takeWhile_dropWhile_id[of ?Q rows] by metis
    then show ?thesis using none len s by blast
  qed
  show ?thesis
    unfolding Let_def using e n by (simp add: p_def eq_def out_def)
qed

theorem enhancedPriceCurve_point_witness:
  "useExchangeData ascii_platform
     (Some \<lparr>account_strategy_id = ''s1'', account_exchange_id = ''weex'',
            total_equity = 1000, total_available = 400, total_frozen = 0,
            account = None, collateral = None, position = None\<rparr>) None (Some ''weex'') \<and>
   0 < displayTotalEquity ascii_platform None None
     (Some \<lparr>account_strategy_id = ''s1'', account_exchange_id = ''weex'',
            total_equity = 1000, total_available = 400, total_frozen = 0,
            account = None, collateral = None, position = None\<rparr>) (Some ''weex'') \<and>
   enhancedPriceCurve ascii_platform (decimal_format 4) ''2025-01-01 10:00:30'' [] None None
     (Some \<lparr>account_strategy_id = ''s1'', account_exchange_id = ''weex'',
            total_equity = 1000, total_available = 400, total_frozen = 0,
            account = None, collateral = None, position = None\<rparr>) (Some ''weex'')
   = [[CStr ''Time'', CStr ''Portfolio Value''], [CStr ''2025-01-01 10:00:30'', CNum 1000]] \<and>
   enhancedPriceCurve ascii_platform (decimal_format 4) ''2025-01-01 10:00:30''
     [[CStr ''Time'', CStr ''Portfolio Value''],
      [CStr ''2025-01-01 09:58:00'', CNum 990],
      [CStr ''2025-01-01 10:02:00'', CNum 995]] None None
     (Some \<lparr>account_strategy_id = ''s1'', account_exchange_id = ''weex'',
            total_equity = 1000, total_available = 400, total_frozen = 0,
            account = None, collateral = None, position = None\<rparr>) (Some ''weex'')
   = [[CStr ''Time'', CStr ''Portfolio Value''],
      [CStr ''2025-01-01 09:58:00'', CNum 990],
      [CStr ''2025-01-01 10:00:30'', CNum 1000],
      [CStr ''2025-01-01 10:02:00'', CNum 995]] \<and>
   sorted (dataTimes (decimal_format 4)
     [[CStr ''Time'', CStr ''Portfolio Value''],
      [CStr ''2025-01-01 09:58:00'', CNum 990],
      [CStr ''2025-01-01 10:00:30'', CNum 1000],
      [CStr ''2025-01-01 10:02:00'', CNum 995]]) \<and>
   enhancedPriceCurve ascii_platform (decimal_format 4) ''2025-01-01 10:00:30''
     [[CStr ''Time'', CStr ''Portfolio Value''],
      [CStr ''2025-01-01 09:58:00'', CNum 990],
      [CStr ''2025-01-01 10:00:10'', CNum 995]] None None
     (Some \<lparr>account_strategy_id = ''s1'', account_exchange_id = ''weex'',
            total_equity = 1000, total_available = 400, total_frozen = 0,
            account = None, collateral = None, position = None\<rparr>) (Some ''weex'')
   = [[CStr ''Time'', CStr ''Portfolio Value''],
      [CStr ''2025-01-01 09:58:00'', CNum 990],
      [CStr ''2025-01-01 10:00:30'', CNum 1000]] \<and>
   sorted (dataTimes (decimal_format 4)
     [[CStr ''Time'', CStr ''Portfolio Value''],
      [CStr ''2025-01-01 09:58:00'', CNum 990],
      [CStr ''2025-01-01 10:00:30'', CNum 1000]])"
proof -
  let ?ai = "Some \<lparr>account_strategy_id = ''s1'', account_exchange_id = ''weex'',
            total_equity = 1000, total_available = 400, total_frozen = 0,
            account = None, collateral = None, position = None\<rparr>"
  have ex: "useExchangeData ascii_platform ?ai None (Some ''weex'')"
    by (simp add: useExchangeData_def useAccountInfo_def hasAccountInfo_def)
  have pos: "0 < displayTotalEquity ascii_platform None None ?ai (Some ''weex'')"
    by (simp add: displayTotalEquity_def useAccountInfo_def hasAccountInfo_def)
  note t = enhancedPriceCurve_point
    [OF ex pos, where timeStr = "''2025-01-01 10:00:30''" and ns = "decimal_format 4"]
  show ?thesis
    using ex pos t [where priceCurve = "[]"]
      t [where priceCurve = "[[CStr ''Time'', CStr ''Portfolio Value''],
      [CStr ''2025-01-01 09:58:00'', CNum 990],
      [CStr ''2025-01-01 10:02:00'', CNum 995]]"]
      t [where priceCurve = "[[CStr ''Time'', CStr ''Portfolio Value''],
      [CStr ''2025-01-01 09:58:00'', CNum 990],
      [CStr ''2025-01-01 10:00:10'', CNum 995]]"]
    by (simp add: enhancedPriceCurve_def displayTotalEquity_def useAccountInfo_def
        hasAccountInfo_def addCurrentPoint_def dataTimes_def rowTimeString_def slice0_def
        Let_def splice_in_def)
qed

text \<open>
  Claim C10, as stated, fails. For the empty price curve the result has two rows, the
  header row and the current point, not at most one row more than the input. For a
  sorted price curve with two data rows in the current minute, 10:00:10 and 10:00:50, and
  the current time 10:00:55, the first of them is replaced by the current point, which
  then stands before the earlier row 10:00:50: the result is not sorted by time.
\<close>

theorem enhancedPriceCurve_breaks_claim:
  "\<not> length (enhancedPriceCurve ascii_platform (decimal_format 4) ''2025-01-01 10:00:55'' [] None None
        (Some \<lparr>account_strategy_id = ''s1'', account_exchange_id = ''weex'',
           total_equity = 1000, total_available = 400, total_frozen = 0,
           account = None, collateral = None, position = None\<rparr>) (Some ''weex''))
      \<le> length ([] :: row list) + 1 \<and>
   sorted (dataTimes (decimal_format 4)
      [[CStr ''Time'', CStr ''Portfolio Value''],
       [CStr ''2025-01-01 10:00:10'', CNum 990],
       [CStr ''2025-01-01 10:00:50'', CNum 995]]) \<and>
   \<not> sorted (dataTimes (decimal_format 4)
      (enhancedPriceCurve ascii_platform (decimal_format 4) ''2025-01-01 10:00:55''
        [[CStr ''Time'', CStr ''Portfolio Value''],
         [CStr ''2025-01-01 10:00:10'', CNum 990],
         [CStr ''2025-01-01 10:00:50'', CNum 995]] None None
        (Some \<lparr>account_strategy_id = ''s1'', account_exchange_id = ''weex'',
           total_equity = 1000, total_available = 400, total_frozen = 0,
           account = None, collateral = None, position = None\<rparr>) (Some ''weex'')))"
  by (simp add: enhancedPriceCurve_def useExchangeData_def useAccountInfo_def hasAccountInfo_def
      displayTotalEquity_def addCurrentPoint_def dataTimes_def rowTimeString_def slice0_def Let_def)

end
